theory Spec2Isabelle
  imports Main "HOL-Library.Multiset"
begin

section \<open>Values, rows and table configuration\<close>

text \<open>
  The row mutation layer (\<^verbatim>\<open>addRowAtom\<close>, \<^verbatim>\<open>deleteRowAtom\<close>, \<^verbatim>\<open>bulkAddRowsAtom\<close>,
  \<^verbatim>\<open>updateFieldAtom\<close>) works on JavaScript objects. A JavaScript value is a \<open>jval\<close>;
  \<open>JUndefined\<close> is a value of its own, because a property may be present and hold
  \<^verbatim>\<open>undefined\<close>; \<open>JNative name\<close> is a built-in function or object, of which only the name
  matters here. An object is a finite map from the names of its own properties to their
  values.
\<close>

datatype jval =
    JUndefined
  | JNull
  | JBool bool
  | JNum int
  | JStr string
  | JArr "jval list"
  | JObj "(string \<times> jval) list"
  | JNative string

type_synonym obj = "string \<rightharpoonup> jval"

text \<open>
  Reading a property, \<^verbatim>\<open>o[k]\<close>, looks at the object's own properties and then at its
  prototype. Rows and updates are plain objects, whose prototype is \<^verbatim>\<open>Object.prototype\<close>:
  a name that is not an own property reads as the built-in member of that name, if there
  is one, and as \<^verbatim>\<open>undefined\<close> otherwise. An own property shadows the inherited one, also
  when it holds \<^verbatim>\<open>undefined\<close>.
\<close>

definition object_prototype :: "string list" where
  "object_prototype =
     [''constructor'', ''hasOwnProperty'', ''isPrototypeOf'', ''propertyIsEnumerable'',
      ''toLocaleString'', ''toString'', ''valueOf'', ''__proto__'',
      ''__defineGetter__'', ''__defineSetter__'', ''__lookupGetter__'', ''__lookupSetter__'']"

definition get_prop :: "obj \<Rightarrow> string \<Rightarrow> jval" where
  "get_prop ob k =
     (case ob k of
        Some v \<Rightarrow> v
      | None \<Rightarrow> if k \<in> set object_prototype then JNative k else JUndefined)"

text \<open>
  A \<^verbatim>\<open>TableRow\<close> always carries \<^verbatim>\<open>_rowy_ref\<close>, of which the mutation layer reads \<^verbatim>\<open>id\<close>
  and \<^verbatim>\<open>path\<close>; every other property is kept in \<open>row_fields\<close>. \<open>row_obj\<close> is the row
  seen as a plain object, which is what the spread \<^verbatim>\<open>{ ...row }\<close> and the read
  \<^verbatim>\<open>row[field]\<close> see.
\<close>

record rowy_ref =
  ref_id :: string
  ref_path :: string

record table_row =
  rowy_ref :: rowy_ref
  row_fields :: obj

definition ref_val :: "rowy_ref \<Rightarrow> jval" where
  "ref_val r = JObj [(''id'', JStr (ref_id r)), (''path'', JStr (ref_path r))]"

definition row_obj :: "table_row \<Rightarrow> obj" where
  "row_obj r = (row_fields r)(''_rowy_ref'' \<mapsto> ref_val (rowy_ref r))"

record table_filter =
  filter_key :: string
  filter_operator :: string
  filter_value :: jval

record default_value =
  dv_type :: string
  dv_value :: jval

record column_config =
  required :: "bool option"
  defaultValue :: "default_value option"

record column =
  column_key :: string
  config :: "column_config option"

record table_settings =
  audit :: "bool option"
  auditFieldCreatedBy :: "string option"
  auditFieldUpdatedBy :: "string option"

type_synonym user = jval

text \<open>
  The atoms read with \<^verbatim>\<open>get\<close>. The three database functions and the audit function
  are functions of the database client; an atom holding one is modelled by whether it
  is set, and a call of the function is an event of the trace below.
\<close>

record atoms =
  updateRowDbAtom :: bool
  deleteRowDbAtom :: bool
  bulkWriteDbAtom :: bool
  auditChangeAtom :: bool
  tableSettingsAtom :: "table_settings option"
  currentUserAtom :: "user option"
  tableFiltersAtom :: "table_filter list"
  tableColumnsOrderedAtom :: "column list"
  tableRowsDbAtom :: "table_row list"
  tableRowsLocalAtom :: "table_row list"
  tableRowsAtom :: "table_row list"

text \<open>
  The helpers imported from \<^verbatim>\<open>@src/utils/table\<close> and from lodash are not part of the
  mutation layer; they are parameters of the model. \<open>generateId u k\<close> is the id returned
  by the \<open>k\<close>-th call of \<^verbatim>\<open>generateId()\<close> during one invocation of an atom; the
  argument of \<open>decrementId\<close> is \<open>None\<close> when the source passes \<^verbatim>\<open>undefined\<close>.
\<close>

record utils =
  rowyUser :: "user \<Rightarrow> jval"
  generateId :: "nat \<Rightarrow> string"
  decrementId :: "string option \<Rightarrow> string"
  updateRowData :: "obj \<Rightarrow> obj \<Rightarrow> obj"
  omitRowyFields :: "obj \<Rightarrow> obj"

record lodash =
  lodash_get :: "obj \<Rightarrow> string \<Rightarrow> jval"
  lodash_set :: "obj \<Rightarrow> string \<Rightarrow> jval \<Rightarrow> obj"
  lodash_unset :: "obj \<Rightarrow> string \<Rightarrow> obj"
  isEqual :: "jval \<Rightarrow> jval \<Rightarrow> bool"

section \<open>Effects\<close>

text \<open>
  Everything a mutation does to the outside is a call: a dispatch to the local rows
  reducer (\<^verbatim>\<open>set(tableRowsLocalAtom, action)\<close>), a call of a database function, or a call
  of the audit function. The result of an atom is the sequence of the calls it makes,
  together with the error it throws, if any.
\<close>

datatype local_action =
    LocalAdd obj
  | LocalDelete string
  | LocalUpdate string obj "string list"

datatype audit_type = ADD_ROW | DELETE_ROW | UPDATE_CELL

record operation =
  op_type :: string
  op_path :: string
  op_data :: obj

text \<open>
  \<open>UpdateRowDb path values deleteFields\<close> is a call of \<^verbatim>\<open>updateRowDb\<close>, with \<open>None\<close> for
  \<open>deleteFields\<close> when the third argument is not passed; \<open>AuditChange type path field\<close> is a
  call of \<^verbatim>\<open>auditChange\<close>, \<open>field\<close> being the \<^verbatim>\<open>updatedField\<close> of its data argument, if any.
  The \<^verbatim>\<open>onBatchCommit\<close> callback is handed on to \<^verbatim>\<open>bulkWriteDb\<close> as it is.
\<close>

type_synonym callback = nat

datatype event =
    SetRowsLocal local_action
  | UpdateRowDb string obj "string list option"
  | DeleteRowDb string
  | BulkWriteDb "operation list" "callback option"
  | AuditChange audit_type string "string option"

datatype error = Error string

text \<open>
  The database functions and the audit function return promises. How a call settles is
  given from outside: \<open>None\<close> when the promise is fulfilled, \<open>Some e\<close> when it is rejected
  with \<open>e\<close>. Promises are taken to settle in the order in which the calls were made.
\<close>

type_synonym settle = "event \<Rightarrow> error option"

text \<open>The result of an atom: the calls made, and the error thrown, if any.\<close>

type_synonym result = "event list \<times> error option"

definition calls :: "result \<Rightarrow> event list" where
  "calls r = fst r"

definition thrown :: "result \<Rightarrow> error option" where
  "thrown r = snd r"

text \<open>The calls by the system they reach.\<close>

definition is_local :: "event \<Rightarrow> bool" where
  "is_local e = (case e of SetRowsLocal _ \<Rightarrow> True | _ \<Rightarrow> False)"

definition is_db :: "event \<Rightarrow> bool" where
  "is_db e = (case e of UpdateRowDb _ _ _ \<Rightarrow> True | DeleteRowDb _ \<Rightarrow> True
                | BulkWriteDb _ _ \<Rightarrow> True | _ \<Rightarrow> False)"

definition is_audit :: "event \<Rightarrow> bool" where
  "is_audit e = (case e of AuditChange _ _ _ \<Rightarrow> True | _ \<Rightarrow> False)"

text \<open>Truthiness of an optional boolean flag, and \<^verbatim>\<open>name || dflt\<close> on an optional string.\<close>

definition truthy :: "bool option \<Rightarrow> bool" where
  "truthy b = (b = Some True)"

definition or_default :: "string option \<Rightarrow> string \<Rightarrow> string" where
  "or_default s d = (case s of None \<Rightarrow> d | Some x \<Rightarrow> if x = [] then d else x)"

text \<open>
  An \<^verbatim>\<open>async\<close> function that is called runs up to its first \<^verbatim>\<open>await\<close> at once and resumes
  later, when the awaited promise is fulfilled; when that promise is rejected the
  function does not resume and its own promise is rejected with the same error. A
  procedure is therefore given by the calls it makes before the suspension (the awaited
  call included), the calls it makes after it, and its rejection.
\<close>

record procedure =
  started :: "event list"
  resumed :: "event list"
  rejection :: "error option"

text \<open>
  A procedure that is awaited makes its calls in order, and its rejection is thrown.
  \<^verbatim>\<open>Promise.all\<close> over procedures started one after the other lets each run to its
  suspension in turn and each resume after that; it is rejected with the first
  rejection among them, which does not keep the others from resuming.
\<close>

definition awaited :: "procedure \<Rightarrow> result" where
  "awaited p = (started p @ resumed p, rejection p)"

fun firstRejection :: "error option list \<Rightarrow> error option" where
  "firstRejection [] = None"
| "firstRejection (None # os) = firstRejection os"
| "firstRejection (Some e # os) = Some e"

definition fanOut :: "('a \<Rightarrow> procedure) \<Rightarrow> 'a list \<Rightarrow> result" where
  "fanOut f xs =
     (concat (map (\<lambda>x. started (f x)) xs) @ concat (map (\<lambda>x. resumed (f x)) xs),
      firstRejection (map (\<lambda>x. rejection (f x)) xs))"

section \<open>addRowAtom\<close>

datatype set_id = Random | Decrement

datatype row_arg = Row table_row | Rows "table_row list"

text \<open>
  The loop over \<^verbatim>\<open>tableFilters\<close>: it assigns initial values and removes from
  \<^verbatim>\<open>outOfOrderFilters\<close> every key it could assign.
\<close>

fun setFilterValues :: "table_filter list \<Rightarrow> obj \<times> string set \<Rightarrow> obj \<times> string set" where
  "setFilterValues [] acc = acc"
| "setFilterValues (f # fs) (initialValues, outOfOrderFilters) =
     (if filter_operator f = ''=='' then
        setFilterValues fs
          (initialValues(filter_key f \<mapsto> filter_value f), outOfOrderFilters - {filter_key f})
      else if filter_operator f = ''array-contains'' then
        setFilterValues fs
          (initialValues(filter_key f \<mapsto> JArr [filter_value f]), outOfOrderFilters - {filter_key f})
      else setFilterValues fs (initialValues, outOfOrderFilters))"

text \<open>\<^verbatim>\<open>column.config?.defaultValue\<close>, and the loop over the columns that assigns defaults.\<close>

definition column_default :: "column \<Rightarrow> default_value option" where
  "column_default c = (case config c of None \<Rightarrow> None | Some cf \<Rightarrow> defaultValue cf)"

fun setDefaultValues :: "column list \<Rightarrow> obj \<Rightarrow> obj" where
  "setDefaultValues [] initialValues = initialValues"
| "setDefaultValues (c # cs) initialValues =
     (case column_default c of
        None \<Rightarrow> setDefaultValues cs initialValues
      | Some d \<Rightarrow>
          if dv_type d = ''static'' then
            setDefaultValues cs (initialValues(column_key c \<mapsto> dv_value d))
          else if dv_type d = ''null'' then
            setDefaultValues cs (initialValues(column_key c \<mapsto> JNull))
          else setDefaultValues cs initialValues)"

text \<open>Audit fields of a new row, written unless auditing is explicitly disabled.\<close>

definition setAuditFields :: "utils \<Rightarrow> table_settings \<Rightarrow> user \<Rightarrow> obj \<Rightarrow> obj" where
  "setAuditFields u tableSettings currentUser initialValues =
     (if audit tableSettings \<noteq> Some False then
        let auditValue = rowyUser u currentUser in
        (initialValues(or_default (auditFieldCreatedBy tableSettings) ''_createdBy'' \<mapsto> auditValue))
          (or_default (auditFieldUpdatedBy tableSettings) ''_updatedBy'' \<mapsto> auditValue)
      else initialValues)"

text \<open>\<^verbatim>\<open>column.config?.required\<close> is truthy.\<close>

definition column_required :: "column \<Rightarrow> bool" where
  "column_required c = (case config c of None \<Rightarrow> False | Some cf \<Rightarrow> truthy (required cf))"

definition requiredFields :: "bool option \<Rightarrow> column list \<Rightarrow> string list" where
  "requiredFields ignoreRequiredFields tableColumnsOrdered =
     (if truthy ignoreRequiredFields then []
      else map column_key (filter column_required tableColumnsOrdered))"

definition missingRequiredFields :: "bool option \<Rightarrow> column list \<Rightarrow> table_row \<Rightarrow> string list" where
  "missingRequiredFields ignoreRequiredFields tableColumnsOrdered row =
     (if truthy ignoreRequiredFields then []
      else filter (\<lambda>field. get_prop (row_obj row) field = JUndefined)
             (requiredFields ignoreRequiredFields tableColumnsOrdered))"

text \<open>
  The initial values of a new row: the row's reference, then the filter values, the
  defaults and the audit fields; and the filter keys left without an initial value.
\<close>

definition addInitialValues ::
  "utils \<Rightarrow> table_settings \<Rightarrow> user \<Rightarrow> table_filter list \<Rightarrow> column list \<Rightarrow> table_row \<Rightarrow> obj" where
  "addInitialValues u tableSettings currentUser tableFilters tableColumnsOrdered row =
     setAuditFields u tableSettings currentUser
       (setDefaultValues tableColumnsOrdered
          (fst (setFilterValues tableFilters
             ([''_rowy_ref'' \<mapsto> ref_val (rowy_ref row)], set (map filter_key tableFilters)))))"

definition addOutOfOrderFilters :: "table_filter list \<Rightarrow> table_row \<Rightarrow> string set" where
  "addOutOfOrderFilters tableFilters row =
     snd (setFilterValues tableFilters
       ([''_rowy_ref'' \<mapsto> ref_val (rowy_ref row)], set (map filter_key tableFilters)))"

text \<open>
  \<^verbatim>\<open>_addSingleRowAndAudit\<close>. When no required field is missing the database write is
  awaited and the audit call follows once it is fulfilled; otherwise nothing is awaited
  and the audit call is made at once.
\<close>

definition addSingleRowAndAudit ::
  "utils \<Rightarrow> settle \<Rightarrow> table_settings \<Rightarrow> user \<Rightarrow> bool \<Rightarrow> table_filter list \<Rightarrow> column list
     \<Rightarrow> bool option \<Rightarrow> set_id option \<Rightarrow> table_row \<Rightarrow> procedure" where
  "addSingleRowAndAudit u settles tableSettings currentUser auditChange tableFilters
       tableColumnsOrdered ignoreRequiredFields setId row =
     (let initialValues =
            addInitialValues u tableSettings currentUser tableFilters tableColumnsOrdered row;
          outOfOrderFilters = addOutOfOrderFilters tableFilters row;
          missing = missingRequiredFields ignoreRequiredFields tableColumnsOrdered row;
          rowValues = initialValues ++ row_obj row;
          outOfOrder = (get_prop (row_obj row) ''_rowy_outOfOrder'' = JBool True
                        \<or> outOfOrderFilters \<noteq> {} \<or> setId \<noteq> Some Decrement);
          addLocal = (if missing \<noteq> [] \<or> outOfOrder
                      then [SetRowsLocal (LocalAdd (rowValues(''_rowy_outOfOrder'' \<mapsto> JBool outOfOrder)))]
                      else []);
          updateCall = UpdateRowDb (ref_path (rowy_ref row)) (omitRowyFields u rowValues) None;
          auditCall = (if auditChange then [AuditChange ADD_ROW (ref_path (rowy_ref row)) None] else [])
      in if missing = []
         then \<lparr>started = addLocal @ [updateCall],
               resumed = (if settles updateCall = None then auditCall else []),
               rejection = settles updateCall\<rparr>
         else \<lparr>started = addLocal @ auditCall, resumed = [], rejection = None\<rparr>)"

text \<open>
  \<^verbatim>\<open>path.split("/").slice(0, -1).join("/")\<close>: the path without its last segment.
\<close>

definition split_slash :: "string \<Rightarrow> string list" where
  "split_slash s =
     foldr (\<lambda>c acc. if c = CHR ''/'' then [] # acc else (c # hd acc) # tl acc) s [[]]"

fun join_slash :: "string list \<Rightarrow> string" where
  "join_slash [] = []"
| "join_slash [x] = x"
| "join_slash (x # y # ys) = x @ ''/'' @ join_slash (y # ys)"

definition parent_path :: "string \<Rightarrow> string" where
  "parent_path p = join_slash (butlast (split_slash p))"

text \<open>
  The id and path a row is added under. Without \<^verbatim>\<open>setId\<close> the row is passed on as it
  is; with it, \<^verbatim>\<open>_rowy_ref\<close> is replaced.
\<close>

definition newId :: "utils \<Rightarrow> set_id option \<Rightarrow> string option \<Rightarrow> nat \<Rightarrow> table_row \<Rightarrow> string" where
  "newId u setId lastId k r =
     (case setId of
        Some Random \<Rightarrow> generateId u k
      | Some Decrement \<Rightarrow> decrementId u lastId
      | None \<Rightarrow> ref_id (rowy_ref r))"

definition withId :: "set_id option \<Rightarrow> string \<Rightarrow> table_row \<Rightarrow> table_row" where
  "withId setId i r =
     (case setId of
        None \<Rightarrow> r
      | Some _ \<Rightarrow> r\<lparr>rowy_ref := \<lparr>ref_id = i, ref_path = parent_path (ref_path (rowy_ref r)) @ ''/'' @ i\<rparr>\<rparr>)"

text \<open>
  The loop of the array case: \<open>lastId\<close> is the id given to the previous row (at first the
  id of the first database row, if any), \<open>k\<close> counts the calls of \<^verbatim>\<open>generateId()\<close>.
\<close>

fun assignIds :: "utils \<Rightarrow> set_id option \<Rightarrow> string option \<Rightarrow> nat \<Rightarrow> table_row list \<Rightarrow> table_row list" where
  "assignIds u setId lastId k [] = []"
| "assignIds u setId lastId k (r # rs) =
     (let i = newId u setId lastId k r
      in withId setId i r # assignIds u setId (Some i) (Suc k) rs)"

definition firstDbId :: "table_row list \<Rightarrow> string option" where
  "firstDbId tableRowsDb = (case tableRowsDb of [] \<Rightarrow> None | r # _ \<Rightarrow> Some (ref_id (rowy_ref r)))"

text \<open>The rows handed to \<^verbatim>\<open>_addSingleRowAndAudit\<close>, in order.\<close>

definition rowsToAdd :: "utils \<Rightarrow> atoms \<Rightarrow> set_id option \<Rightarrow> row_arg \<Rightarrow> table_row list" where
  "rowsToAdd u a setId arg =
     (case arg of
        Rows rs \<Rightarrow> assignIds u setId (firstDbId (tableRowsDbAtom a)) 0 rs
      | Row r \<Rightarrow> [withId setId (newId u setId (firstDbId (tableRowsDbAtom a)) 0 r) r])"

text \<open>
  \<^verbatim>\<open>addRowAtom\<close>. A single row is added by one awaited \<^verbatim>\<open>_addSingleRowAndAudit\<close>; in the
  array case one is started for every row and \<^verbatim>\<open>Promise.all\<close> awaits them all.
\<close>

definition addRowAtom ::
  "utils \<Rightarrow> settle \<Rightarrow> atoms \<Rightarrow> row_arg \<Rightarrow> bool option \<Rightarrow> set_id option \<Rightarrow> result" where
  "addRowAtom u settles a row ignoreRequiredFields setId =
     (if \<not> updateRowDbAtom a then ([], Some (Error ''Cannot write to database''))
      else case tableSettingsAtom a of
        None \<Rightarrow> ([], Some (Error ''Cannot read table settings''))
      | Some tableSettings \<Rightarrow>
         (case currentUserAtom a of
            None \<Rightarrow> ([], Some (Error ''Cannot read current user''))
          | Some currentUser \<Rightarrow>
             (let single = addSingleRowAndAudit u settles tableSettings currentUser
                             (auditChangeAtom a) (tableFiltersAtom a) (tableColumnsOrderedAtom a)
                             ignoreRequiredFields setId
              in case row of
                   Rows rs \<Rightarrow>
                     fanOut single (assignIds u setId (firstDbId (tableRowsDbAtom a)) 0 rs)
                 | Row r \<Rightarrow>
                     awaited (single
                       (withId setId (newId u setId (firstDbId (tableRowsDbAtom a)) 0 r) r)))))"

section \<open>deleteRowAtom\<close>

datatype path_arg = Path string | Paths "string list"

text \<open>\<^verbatim>\<open>Boolean(find(rows, ["_rowy_ref.path", path]))\<close>.\<close>

definition findRow :: "table_row list \<Rightarrow> string \<Rightarrow> table_row option" where
  "findRow rows path = find (\<lambda>r. ref_path (rowy_ref r) = path) rows"

definition isLocalRow :: "table_row list \<Rightarrow> string \<Rightarrow> bool" where
  "isLocalRow tableRowsLocal path = (findRow tableRowsLocal path \<noteq> None)"

text \<open>
  \<^verbatim>\<open>_deleteSingleRowAndAudit\<close>: a local delete awaits nothing; a database delete is awaited
  and the audit call follows once it is fulfilled.
\<close>

definition deleteSingleRowAndAudit ::
  "settle \<Rightarrow> bool \<Rightarrow> table_row list \<Rightarrow> string \<Rightarrow> procedure" where
  "deleteSingleRowAndAudit settles auditChange tableRowsLocal path =
     (let auditCall = (if auditChange then [AuditChange DELETE_ROW path None] else [])
      in if isLocalRow tableRowsLocal path
         then \<lparr>started = SetRowsLocal (LocalDelete path) # auditCall, resumed = [],
               rejection = None\<rparr>
         else \<lparr>started = [DeleteRowDb path],
               resumed = (if settles (DeleteRowDb path) = None then auditCall else []),
               rejection = settles (DeleteRowDb path)\<rparr>)"

definition deleteRowAtom :: "settle \<Rightarrow> atoms \<Rightarrow> path_arg \<Rightarrow> result" where
  "deleteRowAtom settles a path =
     (if \<not> deleteRowDbAtom a then ([], Some (Error ''Cannot write to database''))
      else
        (let single = deleteSingleRowAndAudit settles (auditChangeAtom a) (tableRowsLocalAtom a)
         in case path of
              Paths ps \<Rightarrow> fanOut single ps
            | Path p \<Rightarrow> awaited (single p)))"

section \<open>bulkAddRowsAtom\<close>

definition bulkInitialValues :: "utils \<Rightarrow> table_settings \<Rightarrow> user \<Rightarrow> column list \<Rightarrow> obj" where
  "bulkInitialValues u tableSettings currentUser tableColumnsOrdered =
     setAuditFields u tableSettings currentUser (setDefaultValues tableColumnsOrdered Map.empty)"

text \<open>One operation per row; the \<open>k\<close>-th row takes the \<open>k\<close>-th generated id.\<close>

definition bulkOperations :: "utils \<Rightarrow> obj \<Rightarrow> string \<Rightarrow> obj list \<Rightarrow> operation list" where
  "bulkOperations u initialValues collection rows =
     map (\<lambda>(k, row).
            \<lparr>op_type = ''add'',
             op_path = collection @ ''/'' @ generateId u k,
             op_data = initialValues ++ omitRowyFields u row\<rparr>)
         (enumerate 0 rows)"

text \<open>
  The bulk write is awaited: when it is rejected nothing follows. The audit calls are
  all made, and then awaited together.
\<close>

definition bulkAddRowsAtom ::
  "utils \<Rightarrow> settle \<Rightarrow> atoms \<Rightarrow> obj list \<Rightarrow> string \<Rightarrow> callback option \<Rightarrow> result" where
  "bulkAddRowsAtom u settles a rows collection onBatchCommit =
     (if \<not> bulkWriteDbAtom a then ([], Some (Error ''Cannot write to database''))
      else case tableSettingsAtom a of
        None \<Rightarrow> ([], Some (Error ''Cannot read table settings''))
      | Some tableSettings \<Rightarrow>
         (case currentUserAtom a of
            None \<Rightarrow> ([], Some (Error ''Cannot read current user''))
          | Some currentUser \<Rightarrow>
             (let initialValues =
                    bulkInitialValues u tableSettings currentUser (tableColumnsOrderedAtom a);
                  operations = bulkOperations u initialValues collection rows;
                  bulkCall = BulkWriteDb operations onBatchCommit;
                  auditCalls =
                    (if auditChangeAtom a
                     then map (\<lambda>operation. AuditChange ADD_ROW (op_path operation) None) operations
                     else [])
              in case settles bulkCall of
                   Some e \<Rightarrow> ([bulkCall], Some e)
                 | None \<Rightarrow> (bulkCall # auditCalls, firstRejection (map settles auditCalls)))))"

section \<open>updateFieldAtom\<close>

text \<open>The update before the field itself is applied: the updated-by audit field, or nothing.\<close>

definition updateAuditField :: "utils \<Rightarrow> table_settings \<Rightarrow> user \<Rightarrow> obj" where
  "updateAuditField u tableSettings currentUser =
     (if audit tableSettings \<noteq> Some False
      then [or_default (auditFieldUpdatedBy tableSettings) ''_updatedBy'' \<mapsto> rowyUser u currentUser]
      else Map.empty)"

text \<open>
  \<^verbatim>\<open>updateFieldAtom\<close>. The database write, where one is made, is awaited and the audit call
  follows once it is fulfilled; the update of a local row is dispatched before the write.
\<close>

definition updateFieldAtom ::
  "utils \<Rightarrow> lodash \<Rightarrow> settle \<Rightarrow> atoms \<Rightarrow> string \<Rightarrow> string \<Rightarrow> jval
     \<Rightarrow> bool option \<Rightarrow> bool option \<Rightarrow> bool option \<Rightarrow> result" where
  "updateFieldAtom u lo settles a path fieldName value deleteField ignoreRequiredFields
       disableCheckEquality =
     (if \<not> updateRowDbAtom a then ([], Some (Error ''Cannot write to database''))
      else case tableSettingsAtom a of
        None \<Rightarrow> ([], Some (Error ''Cannot read table settings''))
      | Some tableSettings \<Rightarrow>
         (case currentUserAtom a of
            None \<Rightarrow> ([], Some (Error ''Cannot read current user''))
          | Some currentUser \<Rightarrow>
             (case findRow (tableRowsAtom a) path of
                None \<Rightarrow> ([], Some (Error ''Could not find row''))
              | Some row \<Rightarrow>
                 (let missing = missingRequiredFields ignoreRequiredFields
                                  (tableColumnsOrderedAtom a) row
                  in if \<not> truthy deleteField \<and> \<not> truthy disableCheckEquality
                        \<and> isEqual lo (lodash_get lo (row_obj row) fieldName) value
                     then ([], None)
                     else
                       (let update =
                              (if \<not> truthy deleteField
                               then lodash_set lo (updateAuditField u tableSettings currentUser)
                                      fieldName value
                               else updateAuditField u tableSettings currentUser);
                            deleteFields = (if truthy deleteField then [fieldName] else []);
                            rowValues =
                              (if truthy deleteField
                               then lodash_unset lo (updateRowData u (row_obj row) update) fieldName
                               else updateRowData u (row_obj row) update);
                            localCall = SetRowsLocal (LocalUpdate path update deleteFields);
                            auditCall =
                              (if auditChangeAtom a
                               then [AuditChange UPDATE_CELL path (Some fieldName)]
                               else [])
                        in if isLocalRow (tableRowsLocalAtom a) path
                           then
                             (if missing = []
                              then
                                (let updateCall =
                                       UpdateRowDb (ref_path (rowy_ref row))
                                         (omitRowyFields u rowValues) (Some deleteFields)
                                 in ([localCall, updateCall]
                                       @ (if settles updateCall = None then auditCall else []),
                                     settles updateCall))
                              else (localCall # auditCall, None))
                           else
                             (let updateCall =
                                    UpdateRowDb (ref_path (rowy_ref row))
                                      (omitRowyFields u update) (Some deleteFields)
                              in (updateCall
                                    # (if settles updateCall = None then auditCall else []),
                                  settles updateCall)))))))"

section \<open>The filters applied to the table\<close>

text \<open>
  The effect of the \<^verbatim>\<open>Filters\<close> component that applies the table's or the user's
  filters. A filters property of a config document is undefined, null or an array.
\<close>

datatype filters_doc = FUndefined | FNull | FArray "table_filter list"

datatype ui_call =
    TableSetQuery table_filter
  | UserSetQuery table_filter
  | TableFilter "table_filter list"
  | TableOrderBy

definition hasFilters :: "filters_doc \<Rightarrow> bool" where
  "hasFilters f = (case f of FArray fs \<Rightarrow> fs \<noteq> [] | _ \<Rightarrow> False)"

definition firstQuery :: "table_filter \<Rightarrow> filters_doc \<Rightarrow> table_filter" where
  "firstQuery initialQuery f = (case f of FArray (q # _) \<Rightarrow> q | _ \<Rightarrow> initialQuery)"

definition filtersOf :: "filters_doc \<Rightarrow> table_filter list" where
  "filtersOf f = (case f of FArray fs \<Rightarrow> fs | _ \<Rightarrow> [])"

text \<open>\<^verbatim>\<open>userClaims?.roles.includes("ADMIN")\<close>.\<close>

definition isAdmin :: "string list option \<Rightarrow> bool" where
  "isAdmin userClaims = (case userClaims of None \<Rightarrow> False | Some roles \<Rightarrow> ''ADMIN'' \<in> set roles)"

definition filtersToApply :: "string list option \<Rightarrow> filters_doc \<Rightarrow> filters_doc \<Rightarrow> table_filter list" where
  "filtersToApply userClaims tableFilters userFilters =
     (if isAdmin userClaims \<and> (hasFilters userFilters \<or> userFilters = FNull)
      then filtersOf userFilters
      else if hasFilters tableFilters then filtersOf tableFilters
      else if hasFilters userFilters then filtersOf userFilters
      else [])"

definition applyFilters ::
  "table_filter \<Rightarrow> bool \<Rightarrow> string list option \<Rightarrow> filters_doc \<Rightarrow> filters_doc \<Rightarrow> ui_call list" where
  "applyFilters initialQuery tableActions userClaims tableFilters userFilters =
     [TableSetQuery (firstQuery initialQuery tableFilters),
      UserSetQuery (firstQuery initialQuery userFilters)]
     @ (if \<not> tableActions then []
        else [TableFilter (filtersToApply userClaims tableFilters userFilters), TableOrderBy])"

section \<open>Notions used to state the properties\<close>

text \<open>The rows given to \<^verbatim>\<open>addRowAtom\<close>, and the paths given to \<^verbatim>\<open>deleteRowAtom\<close>.\<close>

definition providedRows :: "row_arg \<Rightarrow> table_row list" where
  "providedRows arg = (case arg of Row r \<Rightarrow> [r] | Rows rs \<Rightarrow> rs)"

definition providedPaths :: "path_arg \<Rightarrow> string list" where
  "providedPaths arg = (case arg of Path p \<Rightarrow> [p] | Paths ps \<Rightarrow> ps)"

text \<open>
  A filter whose operator lets \<^verbatim>\<open>addRowAtom\<close> give its key an initial value; and the
  condition that some filter key is given none: no filter on that key has such an
  operator.
\<close>

definition assignable :: "table_filter \<Rightarrow> bool" where
  "assignable f = (filter_operator f = ''=='' \<or> filter_operator f = ''array-contains'')"

definition unassignedFilterKey :: "table_filter list \<Rightarrow> bool" where
  "unassignedFilterKey tableFilters =
     (\<exists>f \<in> set tableFilters.
        \<not> (\<exists>g \<in> set tableFilters. filter_key g = filter_key f \<and> assignable g))"

text \<open>
  Some required field is missing: required fields are checked unless
  \<^verbatim>\<open>ignoreRequiredFields\<close> is true, and a field is missing when the row reads
  \<^verbatim>\<open>undefined\<close> at the key of a column whose config marks it required.
\<close>

definition requiredFieldMissing :: "bool option \<Rightarrow> column list \<Rightarrow> table_row \<Rightarrow> bool" where
  "requiredFieldMissing ignoreRequiredFields tableColumnsOrdered row =
     (\<not> truthy ignoreRequiredFields \<and>
      (\<exists>c \<in> set tableColumnsOrdered.
         column_required c \<and> get_prop (row_obj row) (column_key c) = JUndefined))"

text \<open>The paths of the rows held in the local rows state.\<close>

definition localPaths :: "atoms \<Rightarrow> string set" where
  "localPaths a = (\<lambda>r. ref_path (rowy_ref r)) ` set (tableRowsLocalAtom a)"

text \<open>
  The error an atom throws when a precondition read fails: the reads are made in the
  order database function, table settings, current user.
\<close>

definition preconditionError :: "bool \<Rightarrow> atoms \<Rightarrow> error" where
  "preconditionError dbFunction a =
     (if \<not> dbFunction then Error ''Cannot write to database''
      else if tableSettingsAtom a = None then Error ''Cannot read table settings''
      else Error ''Cannot read current user'')"

section \<open>An example table\<close>

text \<open>
  A concrete table on which the properties below are evaluated. The helper functions
  are stand-ins with the shape of the real ones; on property names without dots or
  brackets lodash's \<^verbatim>\<open>get\<close>, \<^verbatim>\<open>set\<close> and \<^verbatim>\<open>unset\<close> read, write and delete that property.
  With \<open>ex_online\<close> every call is fulfilled, with \<open>ex_offline\<close> every database call is
  rejected.
\<close>

definition ex_online :: settle where
  "ex_online = (\<lambda>call. None)"

definition ex_offline :: settle where
  "ex_offline = (\<lambda>call. if is_db call then Some (Error ''offline'') else None)"

definition ex_utils :: utils where
  "ex_utils =
     \<lparr>rowyUser = (\<lambda>usr. usr),
      generateId = (\<lambda>k. ''id'' @ replicate k (CHR ''x'')),
      decrementId = (\<lambda>lastId. case lastId of None \<Rightarrow> ''zz'' | Some i \<Rightarrow> i @ ''-''),
      updateRowData = (\<lambda>r upd. r ++ upd),
      omitRowyFields = (\<lambda>ob. ob(''_rowy_ref'' := None, ''_rowy_outOfOrder'' := None))\<rparr>"

definition ex_lodash :: lodash where
  "ex_lodash =
     \<lparr>lodash_get = get_prop,
      lodash_set = (\<lambda>ob k v. ob(k \<mapsto> v)),
      lodash_unset = (\<lambda>ob k. ob(k := None)),
      isEqual = (=)\<rparr>"

definition ex_user :: user where
  "ex_user = JStr ''ada''"

definition ex_settings :: table_settings where
  "ex_settings = \<lparr>audit = None, auditFieldCreatedBy = None, auditFieldUpdatedBy = None\<rparr>"

definition ex_columns :: "column list" where
  "ex_columns =
     [\<lparr>column_key = ''name'', config = Some \<lparr>required = Some True, defaultValue = None\<rparr>\<rparr>,
      \<lparr>column_key = ''status'',
       config = Some \<lparr>required = None,
                      defaultValue = Some \<lparr>dv_type = ''static'', dv_value = JStr ''new''\<rparr>\<rparr>\<rparr>]"

definition ex_inherited_columns :: "column list" where
  "ex_inherited_columns =
     [\<lparr>column_key = ''constructor'', config = Some \<lparr>required = Some True, defaultValue = None\<rparr>\<rparr>]"

definition ex_filter_gt :: table_filter where
  "ex_filter_gt = \<lparr>filter_key = ''score'', filter_operator = ''>'', filter_value = JNum 5\<rparr>"

definition ex_filter_eq :: table_filter where
  "ex_filter_eq = \<lparr>filter_key = ''score'', filter_operator = ''=='', filter_value = JNum 7\<rparr>"

definition ex_local_row :: table_row where
  "ex_local_row = \<lparr>rowy_ref = \<lparr>ref_id = ''r1'', ref_path = ''t/r1''\<rparr>, row_fields = Map.empty\<rparr>"

definition ex_db_row :: table_row where
  "ex_db_row =
     \<lparr>rowy_ref = \<lparr>ref_id = ''r5'', ref_path = ''t/r5''\<rparr>, row_fields = [''name'' \<mapsto> JStr ''eve'']\<rparr>"

definition ex_named_row :: table_row where
  "ex_named_row =
     \<lparr>rowy_ref = \<lparr>ref_id = ''n1'', ref_path = ''t/n1''\<rparr>, row_fields = [''name'' \<mapsto> JStr ''bob'']\<rparr>"

definition ex_unnamed_row :: table_row where
  "ex_unnamed_row = \<lparr>rowy_ref = \<lparr>ref_id = ''n2'', ref_path = ''t/n2''\<rparr>, row_fields = Map.empty\<rparr>"

definition ex_atoms :: atoms where
  "ex_atoms =
     \<lparr>updateRowDbAtom = True, deleteRowDbAtom = True, bulkWriteDbAtom = True,
      auditChangeAtom = True,
      tableSettingsAtom = Some ex_settings,
      currentUserAtom = Some ex_user,
      tableFiltersAtom = [ex_filter_gt, ex_filter_eq],
      tableColumnsOrderedAtom = ex_columns,
      tableRowsDbAtom = [ex_db_row],
      tableRowsLocalAtom = [ex_local_row],
      tableRowsAtom = [ex_local_row, ex_db_row]\<rparr>"

section \<open>Auxiliary facts\<close>

lemma setFilterValues_snd:
  "snd (setFilterValues fs (iv, S)) = S - {filter_key f | f. f \<in> set fs \<and> assignable f}"
  by (induction fs arbitrary: iv S) (auto simp: assignable_def)

lemma outOfOrderFilters_empty:
  "(addOutOfOrderFilters fs r = {}) = (\<not> unassignedFilterKey fs)"
proof -
  let ?ok = assignable
  let ?B = "{filter_key f | f. f \<in> set fs \<and> ?ok f}"
  have "(filter_key ` set fs \<subseteq> ?B) =
        (\<forall>f \<in> set fs. \<exists>g \<in> set fs. filter_key g = filter_key f \<and> ?ok g)"
  proof
    assume sub: "filter_key ` set fs \<subseteq> ?B"
    show "\<forall>f \<in> set fs. \<exists>g \<in> set fs. filter_key g = filter_key f \<and> ?ok g"
    proof
      fix f assume "f \<in> set fs"
      then have "filter_key f \<in> ?B" using sub by blast
      then obtain g where "filter_key f = filter_key g" "g \<in> set fs" "?ok g" by blast
      then show "\<exists>g \<in> set fs. filter_key g = filter_key f \<and> ?ok g" by metis
    qed
  next
    assume all: "\<forall>f \<in> set fs. \<exists>g \<in> set fs. filter_key g = filter_key f \<and> ?ok g"
    show "filter_key ` set fs \<subseteq> ?B"
    proof
      fix k assume "k \<in> filter_key ` set fs"
      then obtain f where "f \<in> set fs" "k = filter_key f" by blast
      with all obtain g where "g \<in> set fs" "filter_key g = k" "?ok g" by metis
      then show "k \<in> ?B" by blast
    qed
  qed
  then show ?thesis
    unfolding addOutOfOrderFilters_def setFilterValues_snd unassignedFilterKey_def
    by (simp add: Diff_eq_empty_iff)
qed

lemma missing_nil_iff:
  "missingRequiredFields ign cols r = [] \<longleftrightarrow>
     truthy ign \<or> (\<forall>c\<in>set cols. column_required c \<longrightarrow> get_prop (row_obj r) (column_key c) \<noteq> JUndefined)"
  by (auto simp: missingRequiredFields_def requiredFields_def filter_empty_conv)

lemma missing_iff_requiredFieldMissing:
  "(missingRequiredFields ign cols r = []) = (\<not> requiredFieldMissing ign cols r)"
  by (auto simp: missing_nil_iff requiredFieldMissing_def)

lemma row_fields_withId: "row_fields (withId s i r) = row_fields r"
  by (cases s) (simp_all add: withId_def)

lemma withId_None: "withId None i r = r"
  by (simp add: withId_def)

lemma get_prop_withId:
  "(get_prop (row_obj (withId s i r)) k = JUndefined) = (get_prop (row_obj r) k = JUndefined)"
  by (simp add: get_prop_def row_obj_def row_fields_withId ref_val_def split: option.splits)

lemma outOfOrder_withId:
  "(get_prop (row_obj (withId s i r)) ''_rowy_outOfOrder'' = JBool True)
   = (get_prop (row_obj r) ''_rowy_outOfOrder'' = JBool True)"
  by (simp add: get_prop_def row_obj_def row_fields_withId split: option.splits)

lemma map2_assignIds:
  assumes "\<And>p i. F p (withId s i p) = G (withId s i p)"
  shows "map2 F rs (assignIds u s l k rs) = map G (assignIds u s l k rs)"
  using assms by (induction rs arbitrary: l k) (simp_all add: Let_def)

lemma length_assignIds: "length (assignIds u s l k rs) = length rs"
  by (induction rs arbitrary: l k) (simp_all add: Let_def)

lemma row_fields_assignIds: "map row_fields (assignIds u s l k rs) = map row_fields rs"
  by (induction rs arbitrary: l k) (simp_all add: Let_def row_fields_withId)

lemma assignIds_None: "assignIds u None l k rs = rs"
  by (induction rs arbitrary: l k) (simp_all add: Let_def withId_None)

lemma length_rowsToAdd: "length (rowsToAdd u a s arg) = length (providedRows arg)"
  by (cases arg) (simp_all add: rowsToAdd_def providedRows_def length_assignIds)

lemma row_fields_rowsToAdd:
  "map row_fields (rowsToAdd u a s arg) = map row_fields (providedRows arg)"
  by (cases arg)
     (simp_all add: rowsToAdd_def providedRows_def row_fields_assignIds row_fields_withId)

lemma rowsToAdd_None: "rowsToAdd u a None arg = providedRows arg"
  by (cases arg) (simp_all add: rowsToAdd_def providedRows_def assignIds_None withId_None)

lemma map2_rowsToAdd:
  assumes "\<And>p i. F p (withId s i p) = G (withId s i p)"
  shows "map2 F (providedRows arg) (rowsToAdd u a s arg) = map G (rowsToAdd u a s arg)"
  using assms by (cases arg) (simp_all add: rowsToAdd_def providedRows_def map2_assignIds)

lemma firstRejection_single: "firstRejection [x] = x"
  by (cases x) simp_all

lemma firstRejection_append:
  "firstRejection (xs @ ys) =
     (case firstRejection xs of None \<Rightarrow> firstRejection ys | Some e \<Rightarrow> Some e)"
  by (induction xs rule: firstRejection.induct) simp_all

lemma firstRejection_concat:
  "firstRejection (concat (map h xs)) = firstRejection (map (\<lambda>x. firstRejection (h x)) xs)"
proof (induction xs)
  case Nil
  show ?case by simp
next
  case (Cons x xs)
  then show ?case
    by (cases "firstRejection (h x)") (simp_all add: firstRejection_append)
qed

lemma firstRejection_None_iff: "firstRejection os = None \<longleftrightarrow> (\<forall>x \<in> set os. x = None)"
  by (induction os rule: firstRejection.induct) simp_all

lemma fanOut_single: "fanOut f [x] = awaited (f x)"
  by (simp add: fanOut_def awaited_def firstRejection_single)

lemma calls_fanOut:
  "calls (fanOut f xs)
   = concat (map (\<lambda>x. started (f x)) xs) @ concat (map (\<lambda>x. resumed (f x)) xs)"
  by (simp add: fanOut_def calls_def)

lemma thrown_fanOut: "thrown (fanOut f xs) = firstRejection (map (\<lambda>x. rejection (f x)) xs)"
  by (simp add: fanOut_def thrown_def)

lemma calls_awaited: "calls (awaited p) = started p @ resumed p"
  by (simp add: awaited_def calls_def)

lemma thrown_awaited: "thrown (awaited p) = rejection p"
  by (simp add: awaited_def thrown_def)

lemma filter_two_phases:
  assumes "\<And>x. filter P (resumed (f x)) = []"
  shows "filter P (calls (fanOut f xs)) = concat (map (\<lambda>x. filter P (started (f x))) xs)"
proof -
  have "filter P (concat (map (\<lambda>x. resumed (f x)) xs)) = []"
    by (induction xs) (simp_all add: assms)
  then show ?thesis
    by (simp add: calls_fanOut filter_concat comp_def)
qed

lemma filter_singles:
  assumes "\<And>x. filter P (resumed (f x)) = []"
  shows "filter P (concat (map (\<lambda>x. calls (awaited (f x))) xs))
         = concat (map (\<lambda>x. filter P (started (f x))) xs)"
  by (induction xs) (simp_all add: calls_awaited assms)

lemma mset_two_phases:
  "mset (calls (fanOut f xs)) = mset (concat (map (\<lambda>x. calls (awaited (f x))) xs))"
  by (induction xs) (simp_all add: calls_fanOut calls_awaited)

lemma thrown_two_phases:
  "thrown (fanOut f xs) = firstRejection (map (\<lambda>x. thrown (awaited (f x))) xs)"
  by (simp add: thrown_fanOut thrown_awaited)

lemma rejection_two_phases:
  assumes "\<And>x. filter is_db (resumed (f x)) = []"
    and "\<And>x. rejection (f x) = firstRejection (map settles (filter is_db (started (f x))))"
  shows "thrown (fanOut f xs) = firstRejection (map settles (filter is_db (calls (fanOut f xs))))"
proof -
  have "firstRejection (map settles (filter is_db (calls (fanOut f xs))))
      = firstRejection (concat (map (\<lambda>x. map settles (filter is_db (started (f x)))) xs))"
    by (simp add: filter_two_phases[OF assms(1)] map_concat comp_def)
  also have "\<dots> = firstRejection (map (\<lambda>x. rejection (f x)) xs)"
    by (simp add: firstRejection_concat assms(2))
  finally show ?thesis
    by (simp add: thrown_fanOut)
qed

lemma audit_two_phases:
  assumes "\<And>x. filter is_audit (started (f x) @ resumed (f x)) = (if ok x then [g x] else [])"
  shows "mset (filter is_audit (calls (fanOut f xs))) = mset (map g (filter ok xs))"
proof -
  have "mset (filter is_audit (calls (fanOut f xs)))
      = filter_mset is_audit (mset (concat (map (\<lambda>x. calls (awaited (f x))) xs)))"
    by (simp only: mset_filter mset_two_phases)
  also have "\<dots> = mset (filter is_audit (concat (map (\<lambda>x. started (f x) @ resumed (f x)) xs)))"
    by (simp add: calls_awaited)
  also have "\<dots> = mset (map g (filter ok xs))"
  proof -
    have "filter is_audit (concat (map (\<lambda>x. started (f x) @ resumed (f x)) xs))
        = map g (filter ok xs)"
    proof (induction xs)
      case Nil
      show ?case by simp
    next
      case (Cons x xs)
      have "filter is_audit (concat (map (\<lambda>x. started (f x) @ resumed (f x)) (x # xs))) =
          filter is_audit (started (f x) @ resumed (f x))
          @ filter is_audit (concat (map (\<lambda>x. started (f x) @ resumed (f x)) xs))"
        by simp
      also have "\<dots> = (if ok x then [g x] else []) @ map g (filter ok xs)"
        by (simp only: assms Cons.IH)
      finally show ?case by simp
    qed
    then show ?thesis by simp
  qed
  finally show ?thesis .
qed

lemma single_db:
  "filter is_db (started (addSingleRowAndAudit u st ts cu au fs cols ign s r)) =
     (if missingRequiredFields ign cols r = []
      then [UpdateRowDb (ref_path (rowy_ref r))
              (omitRowyFields u (addInitialValues u ts cu fs cols r ++ row_obj r)) None]
      else [])"
  "filter is_db (resumed (addSingleRowAndAudit u st ts cu au fs cols ign s r)) = []"
  by (simp_all add: addSingleRowAndAudit_def Let_def is_db_def)

lemma single_local:
  "filter is_local (started (addSingleRowAndAudit u st ts cu au fs cols ign s r)) =
     (let outOfOrder = (get_prop (row_obj r) ''_rowy_outOfOrder'' = JBool True
                        \<or> unassignedFilterKey fs \<or> s \<noteq> Some Decrement)
      in if requiredFieldMissing ign cols r \<or> outOfOrder
         then [SetRowsLocal (LocalAdd
                 ((addInitialValues u ts cu fs cols r ++ row_obj r)
                    (''_rowy_outOfOrder'' \<mapsto> JBool outOfOrder)))]
         else [])"
  "filter is_local (resumed (addSingleRowAndAudit u st ts cu au fs cols ign s r)) = []"
  by (cases "unassignedFilterKey fs";
      simp add: addSingleRowAndAudit_def Let_def is_local_def outOfOrderFilters_empty
        missing_iff_requiredFieldMissing)
     (simp add: addSingleRowAndAudit_def Let_def is_local_def)

lemma single_rejection:
  "rejection (addSingleRowAndAudit u st ts cu au fs cols ign s r)
   = firstRejection (map st (filter is_db (started (addSingleRowAndAudit u st ts cu au fs cols ign s r))))"
  by (simp add: addSingleRowAndAudit_def Let_def is_db_def firstRejection_single)

lemma single_audit:
  "filter is_audit (started (addSingleRowAndAudit u st ts cu True fs cols ign s r)
                    @ resumed (addSingleRowAndAudit u st ts cu True fs cols ign s r)) =
     (if requiredFieldMissing ign cols r
         \<or> st (UpdateRowDb (ref_path (rowy_ref r))
                 (omitRowyFields u (addInitialValues u ts cu fs cols r ++ row_obj r)) None) = None
      then [AuditChange ADD_ROW (ref_path (rowy_ref r)) None] else [])"
  by (simp add: addSingleRowAndAudit_def Let_def is_audit_def missing_iff_requiredFieldMissing)

lemma addRowAtom_run:
  assumes "updateRowDbAtom a" "tableSettingsAtom a = Some ts" "currentUserAtom a = Some cu"
  shows "addRowAtom u st a arg ign s =
     fanOut (addSingleRowAndAudit u st ts cu (auditChangeAtom a) (tableFiltersAtom a)
               (tableColumnsOrderedAtom a) ign s)
       (rowsToAdd u a s arg)"
  using assms
  by (cases arg) (simp_all add: addRowAtom_def rowsToAdd_def Let_def fanOut_single)

lemma isLocalRow_iff: "isLocalRow (tableRowsLocalAtom a) p \<longleftrightarrow> p \<in> localPaths a"
  by (auto simp: isLocalRow_def findRow_def localPaths_def find_None_iff)

lemma deleteRowAtom_run:
  assumes "deleteRowDbAtom a"
  shows "deleteRowAtom st a arg =
     fanOut (deleteSingleRowAndAudit st (auditChangeAtom a) (tableRowsLocalAtom a))
       (providedPaths arg)"
  using assms
  by (cases arg) (simp_all add: deleteRowAtom_def providedPaths_def Let_def fanOut_single)

lemma delete_single_local:
  "filter is_local (started (deleteSingleRowAndAudit st au (tableRowsLocalAtom a) p)) =
     (if p \<in> localPaths a then [SetRowsLocal (LocalDelete p)] else [])"
  "filter is_local (resumed (deleteSingleRowAndAudit st au (tableRowsLocalAtom a) p)) = []"
  by (simp_all add: deleteSingleRowAndAudit_def Let_def is_local_def isLocalRow_iff)

lemma delete_single_db:
  "filter is_db (started (deleteSingleRowAndAudit st au (tableRowsLocalAtom a) p)) =
     (if p \<in> localPaths a then [] else [DeleteRowDb p])"
  "filter is_db (resumed (deleteSingleRowAndAudit st au (tableRowsLocalAtom a) p)) = []"
  by (simp_all add: deleteSingleRowAndAudit_def Let_def is_db_def isLocalRow_iff)

lemma delete_single_rejection:
  "rejection (deleteSingleRowAndAudit st au (tableRowsLocalAtom a) p)
   = firstRejection (map st (filter is_db
       (started (deleteSingleRowAndAudit st au (tableRowsLocalAtom a) p))))"
  by (simp add: deleteSingleRowAndAudit_def Let_def is_db_def firstRejection_single)

lemma delete_single_audit:
  "filter is_audit (started (deleteSingleRowAndAudit st True (tableRowsLocalAtom a) p)
                    @ resumed (deleteSingleRowAndAudit st True (tableRowsLocalAtom a) p)) =
     (if p \<in> localPaths a \<or> st (DeleteRowDb p) = None
      then [AuditChange DELETE_ROW p None] else [])"
  by (simp add: deleteSingleRowAndAudit_def Let_def is_audit_def isLocalRow_iff)

lemma concat_map_if_filter:
  "concat (map (\<lambda>x. if P x then [g x] else []) xs) = map g (filter P xs)"
  by (induction xs) simp_all

lemma concat_map_if_not_filter:
  "concat (map (\<lambda>x. if P x then [] else [g x]) xs) = map g (filter (\<lambda>x. \<not> P x) xs)"
  by (induction xs) simp_all

lemma in_filter_sink:
  "is_local e \<Longrightarrow> e \<in> set t \<longleftrightarrow> e \<in> set (filter is_local t)"
  "is_db e \<Longrightarrow> e \<in> set t \<longleftrightarrow> e \<in> set (filter is_db t)"
  by simp_all

lemma updateFieldAtom_run:
  assumes "updateRowDbAtom a" "tableSettingsAtom a = Some ts" "currentUserAtom a = Some cu"
    and "findRow (tableRowsAtom a) path = Some row"
    and "truthy deleteField \<or> truthy disableCheckEquality
         \<or> \<not> isEqual lo (lodash_get lo (row_obj row) fieldName) v"
  shows "updateFieldAtom u lo st a path fieldName v deleteField ignoreRequiredFields
           disableCheckEquality =
     (let update = (if truthy deleteField then updateAuditField u ts cu
                    else lodash_set lo (updateAuditField u ts cu) fieldName v);
          deleteFields = (if truthy deleteField then [fieldName] else []);
          rowValues = (if truthy deleteField
                       then lodash_unset lo (updateRowData u (row_obj row) update) fieldName
                       else updateRowData u (row_obj row) update);
          localCall = SetRowsLocal (LocalUpdate path update deleteFields);
          auditCall = (if auditChangeAtom a
                       then [AuditChange UPDATE_CELL path (Some fieldName)] else []);
          localWrite = UpdateRowDb (ref_path (rowy_ref row)) (omitRowyFields u rowValues)
                         (Some deleteFields);
          fieldWrite = UpdateRowDb (ref_path (rowy_ref row)) (omitRowyFields u update)
                         (Some deleteFields)
      in if path \<in> localPaths a
         then (if missingRequiredFields ignoreRequiredFields (tableColumnsOrderedAtom a) row = []
               then ([localCall, localWrite] @ (if st localWrite = None then auditCall else []),
                     st localWrite)
               else (localCall # auditCall, None))
         else (fieldWrite # (if st fieldWrite = None then auditCall else []), st fieldWrite))"
  using assms by (auto simp: updateFieldAtom_def Let_def isLocalRow_iff)

lemma updateFieldAtom_thrown:
  assumes "updateRowDbAtom a" "tableSettingsAtom a = Some ts" "currentUserAtom a = Some cu"
    and "findRow (tableRowsAtom a) path = Some row"
    and "truthy deleteField \<or> truthy disableCheckEquality
         \<or> \<not> isEqual lo (lodash_get lo (row_obj row) fieldName) v"
  shows "thrown (updateFieldAtom u lo st a path fieldName v deleteField ignoreRequiredFields
                   disableCheckEquality)
         = firstRejection (map st (filter is_db
             (calls (updateFieldAtom u lo st a path fieldName v deleteField ignoreRequiredFields
                       disableCheckEquality))))"
  by (simp only: updateFieldAtom_run[OF assms])
     (simp add: Let_def thrown_def calls_def is_db_def firstRejection_single)

lemma updateFieldAtom_audit:
  assumes "updateRowDbAtom a" "tableSettingsAtom a = Some ts" "currentUserAtom a = Some cu"
    and "findRow (tableRowsAtom a) path = Some row"
    and "truthy deleteField \<or> truthy disableCheckEquality
         \<or> \<not> isEqual lo (lodash_get lo (row_obj row) fieldName) v"
    and "auditChangeAtom a"
  shows "filter is_audit
           (calls (updateFieldAtom u lo st a path fieldName v deleteField ignoreRequiredFields
                     disableCheckEquality))
         = (if thrown (updateFieldAtom u lo st a path fieldName v deleteField
                         ignoreRequiredFields disableCheckEquality) = None
            then [AuditChange UPDATE_CELL path (Some fieldName)] else [])"
  by (simp only: updateFieldAtom_run[OF assms(1-5)])
     (simp add: Let_def thrown_def calls_def is_audit_def assms(6))

lemma setAuditFields_enabled:
  assumes "audit ts \<noteq> Some False"
  shows "setAuditFields u ts cu iv (or_default (auditFieldCreatedBy ts) ''_createdBy'')
           = Some (rowyUser u cu)"
    and "setAuditFields u ts cu iv (or_default (auditFieldUpdatedBy ts) ''_updatedBy'')
           = Some (rowyUser u cu)"
  using assms by (simp_all add: setAuditFields_def Let_def)

lemma setAuditFields_disabled: "audit ts = Some False \<Longrightarrow> setAuditFields u ts cu iv = iv"
  by (simp add: setAuditFields_def)

lemma length_bulkOperations: "length (bulkOperations u iv collection rows) = length rows"
  by (simp add: bulkOperations_def)

lemma nth_bulkOperations:
  "k < length rows \<Longrightarrow>
     bulkOperations u iv collection rows ! k =
       \<lparr>op_type = ''add'', op_path = collection @ ''/'' @ generateId u k,
        op_data = iv ++ omitRowyFields u (rows ! k)\<rparr>"
  by (simp add: bulkOperations_def nth_enumerate_eq)

lemma ref_id_withId_newId:
  "ref_id (rowy_ref (withId s (newId u s l k r) r)) = newId u s l k r"
  by (cases s) (simp_all add: withId_def newId_def)

lemma nth_assignIds:
  "k < length rs \<Longrightarrow>
     assignIds u s l j rs ! k =
       withId s
         (newId u s (if k = 0 then l else Some (ref_id (rowy_ref (assignIds u s l j rs ! (k - 1)))))
            (j + k) (rs ! k))
         (rs ! k)"
proof (induction rs arbitrary: l j k)
  case Nil
  then show ?case by simp
next
  case (Cons r rs)
  show ?case
  proof (cases k)
    case 0
    then show ?thesis by (simp add: Let_def)
  next
    case (Suc m)
    with Cons.prems have m: "m < length rs" by simp
    show ?thesis
    proof (cases m)
      case 0
      with Suc m show ?thesis
        using Cons.IH[of 0 "Some (newId u s l j r)" "Suc j"]
        by (simp add: Let_def ref_id_withId_newId)
    next
      case (Suc n)
      with \<open>k = Suc m\<close> m show ?thesis
        using Cons.IH[of m "Some (newId u s l j r)" "Suc j"]
        by (simp add: Let_def)
    qed
  qed
qed

section \<open>addRowAtom: the database write and the local rows\<close>

text \<open>
  C1. For every row processed by \<^verbatim>\<open>addRowAtom\<close>, \<^verbatim>\<open>updateRowDb\<close> is called with the row's
  path and its values stripped of rowy-internal fields if and only if
  \<^verbatim>\<open>ignoreRequiredFields\<close> is true or every column marked required reads other than
  \<^verbatim>\<open>undefined\<close> in the provided row; these are all the database calls made, in the order
  of the rows. The values are the row's own properties over the initial values. The
  \<open>k\<close>-th provided row is processed as the \<open>k\<close>-th row of \<open>rowsToAdd\<close>, which has the
  same properties but for \<^verbatim>\<open>_rowy_ref\<close>, and is the provided row itself without \<^verbatim>\<open>setId\<close>.
  The atom throws exactly when one of these writes is rejected.
\<close>

theorem addRow_db_write_iff_required:
  assumes "updateRowDbAtom a" "tableSettingsAtom a = Some ts" "currentUserAtom a = Some cu"
  shows "filter is_db (calls (addRowAtom u settles a row ignoreRequiredFields setId)) =
       concat (map2
         (\<lambda>provided r.
            if truthy ignoreRequiredFields \<or>
               (\<forall>c \<in> set (tableColumnsOrderedAtom a).
                  column_required c \<longrightarrow> get_prop (row_obj provided) (column_key c) \<noteq> JUndefined)
            then [UpdateRowDb (ref_path (rowy_ref r))
                    (omitRowyFields u
                       (addInitialValues u ts cu (tableFiltersAtom a) (tableColumnsOrderedAtom a) r
                          ++ row_obj r))
                    None]
            else [])
         (providedRows row) (rowsToAdd u a setId row)) \<and>
     length (rowsToAdd u a setId row) = length (providedRows row) \<and>
     map row_fields (rowsToAdd u a setId row) = map row_fields (providedRows row) \<and>
     (setId = None \<longrightarrow> rowsToAdd u a setId row = providedRows row) \<and>
     thrown (addRowAtom u settles a row ignoreRequiredFields setId) =
       firstRejection (map settles
         (filter is_db (calls (addRowAtom u settles a row ignoreRequiredFields setId))))"
proof -
  let ?cols = "tableColumnsOrderedAtom a"
  let ?single = "addSingleRowAndAudit u settles ts cu (auditChangeAtom a) (tableFiltersAtom a)
                   ?cols ignoreRequiredFields setId"
  let ?call = "\<lambda>r. UpdateRowDb (ref_path (rowy_ref r))
     (omitRowyFields u (addInitialValues u ts cu (tableFiltersAtom a) ?cols r ++ row_obj r)) None"
  let ?G = "\<lambda>r. if missingRequiredFields ignoreRequiredFields ?cols r = [] then [?call r] else []"
  let ?F = "\<lambda>provided r.
     if truthy ignoreRequiredFields \<or>
        (\<forall>c \<in> set ?cols. column_required c \<longrightarrow> get_prop (row_obj provided) (column_key c) \<noteq> JUndefined)
     then [?call r] else []"
  have run: "addRowAtom u settles a row ignoreRequiredFields setId
      = fanOut ?single (rowsToAdd u a setId row)"
    by (rule addRowAtom_run[OF assms])
  have FG: "?F p (withId setId i p) = ?G (withId setId i p)" for p i
    by (simp add: missing_nil_iff get_prop_withId)
  have "map2 ?F (providedRows row) (rowsToAdd u a setId row) = map ?G (rowsToAdd u a setId row)"
    by (rule map2_rowsToAdd) (rule FG)
  moreover have "filter is_db (calls (fanOut ?single rs)) = concat (map ?G rs)" for rs
    by (simp add: filter_two_phases[of is_db ?single, OF single_db(2)] single_db(1))
  ultimately have db: "filter is_db (calls (addRowAtom u settles a row ignoreRequiredFields setId))
      = concat (map2 ?F (providedRows row) (rowsToAdd u a setId row))"
    by (simp only: run)
  have thr: "thrown (addRowAtom u settles a row ignoreRequiredFields setId) =
       firstRejection (map settles
         (filter is_db (calls (addRowAtom u settles a row ignoreRequiredFields setId))))"
    unfolding run by (rule rejection_two_phases) (rule single_db(2), rule single_rejection)
  from db thr show ?thesis
    by (simp add: length_rowsToAdd row_fields_rowsToAdd rowsToAdd_None)
qed

theorem addRow_db_write_iff_required_witness:
  "updateRowDbAtom ex_atoms \<and> tableSettingsAtom ex_atoms = Some ex_settings \<and>
   currentUserAtom ex_atoms = Some ex_user \<and>
   filter is_db
     (calls (addRowAtom ex_utils ex_online ex_atoms (Rows [ex_named_row, ex_unnamed_row])
               None (Some Decrement))) =
     [UpdateRowDb ''t/r5-''
        [''score'' \<mapsto> JNum 7, ''status'' \<mapsto> JStr ''new'', ''_createdBy'' \<mapsto> JStr ''ada'',
         ''_updatedBy'' \<mapsto> JStr ''ada'', ''name'' \<mapsto> JStr ''bob'']
        None] \<and>
   thrown (addRowAtom ex_utils ex_online ex_atoms (Rows [ex_named_row, ex_unnamed_row])
             None (Some Decrement)) = None \<and>
   thrown (addRowAtom ex_utils ex_offline ex_atoms (Rows [ex_named_row, ex_unnamed_row])
             None (Some Decrement)) = Some (Error ''offline'') \<and>
   filter is_db
     (calls (addRowAtom ex_utils ex_online
               (ex_atoms\<lparr>tableColumnsOrderedAtom := ex_inherited_columns\<rparr>)
               (Row ex_unnamed_row) None None)) =
     [UpdateRowDb ''t/n2''
        [''score'' \<mapsto> JNum 7, ''_createdBy'' \<mapsto> JStr ''ada'', ''_updatedBy'' \<mapsto> JStr ''ada'']
        None]"
proof -
  let ?rows = "Rows [ex_named_row, ex_unnamed_row]"
  let ?atoms = "ex_atoms\<lparr>tableColumnsOrderedAtom := ex_inherited_columns\<rparr>"
  have h: "updateRowDbAtom ex_atoms" "tableSettingsAtom ex_atoms = Some ex_settings"
    "currentUserAtom ex_atoms = Some ex_user"
    and h': "updateRowDbAtom ?atoms" "tableSettingsAtom ?atoms = Some ex_settings"
    "currentUserAtom ?atoms = Some ex_user"
    by (simp_all add: ex_atoms_def)
  have rows: "rowsToAdd ex_utils ex_atoms (Some Decrement) ?rows =
      [ex_named_row\<lparr>rowy_ref := \<lparr>ref_id = ''r5-'', ref_path = ''t/r5-''\<rparr>\<rparr>,
       ex_unnamed_row\<lparr>rowy_ref := \<lparr>ref_id = ''r5--'', ref_path = ''t/r5--''\<rparr>\<rparr>]"
    by (simp add: rowsToAdd_def ex_atoms_def ex_utils_def newId_def withId_def firstDbId_def
        parent_path_def split_slash_def ex_named_row_def ex_unnamed_row_def ex_db_row_def Let_def)
  have required: "\<forall>c \<in> set (tableColumnsOrderedAtom ex_atoms).
      column_required c \<longrightarrow> get_prop (row_obj ex_named_row) (column_key c) \<noteq> JUndefined"
    "\<not> (\<forall>c \<in> set (tableColumnsOrderedAtom ex_atoms).
      column_required c \<longrightarrow> get_prop (row_obj ex_unnamed_row) (column_key c) \<noteq> JUndefined)"
    "\<forall>c \<in> set (tableColumnsOrderedAtom ?atoms).
      column_required c \<longrightarrow> get_prop (row_obj ex_unnamed_row) (column_key c) \<noteq> JUndefined"
    by (simp_all add: ex_atoms_def ex_columns_def ex_inherited_columns_def column_required_def
        truthy_def get_prop_def row_obj_def ex_named_row_def ex_unnamed_row_def
        object_prototype_def)
  have written: "omitRowyFields ex_utils
      (addInitialValues ex_utils ex_settings ex_user (tableFiltersAtom ex_atoms)
         (tableColumnsOrderedAtom ex_atoms)
         (ex_named_row\<lparr>rowy_ref := \<lparr>ref_id = ''r5-'', ref_path = ''t/r5-''\<rparr>\<rparr>)
       ++ row_obj (ex_named_row\<lparr>rowy_ref := \<lparr>ref_id = ''r5-'', ref_path = ''t/r5-''\<rparr>\<rparr>))
      = [''score'' \<mapsto> JNum 7, ''status'' \<mapsto> JStr ''new'', ''_createdBy'' \<mapsto> JStr ''ada'',
         ''_updatedBy'' \<mapsto> JStr ''ada'', ''name'' \<mapsto> JStr ''bob'']"
    by (rule ext)
       (simp add: ex_utils_def addInitialValues_def setAuditFields_def ex_settings_def
          or_default_def ex_atoms_def ex_columns_def column_default_def ex_filter_gt_def
          ex_filter_eq_def ex_user_def row_obj_def ex_named_row_def map_add_def Let_def)
  have written': "omitRowyFields ex_utils
      (addInitialValues ex_utils ex_settings ex_user (tableFiltersAtom ex_atoms)
         ex_inherited_columns ex_unnamed_row
       ++ row_obj ex_unnamed_row)
      = [''score'' \<mapsto> JNum 7, ''_createdBy'' \<mapsto> JStr ''ada'', ''_updatedBy'' \<mapsto> JStr ''ada'']"
    by (rule ext)
       (simp add: ex_utils_def addInitialValues_def setAuditFields_def ex_settings_def
          or_default_def ex_atoms_def ex_inherited_columns_def column_default_def ex_filter_gt_def
          ex_filter_eq_def ex_user_def row_obj_def ex_unnamed_row_def map_add_def Let_def)
  have path: "ref_path (rowy_ref ex_unnamed_row) = ''t/n2''"
    by (simp add: ex_unnamed_row_def)
  note online = addRow_db_write_iff_required [OF h, where u = ex_utils and settles = ex_online
      and row = ?rows and ignoreRequiredFields = None and setId = "Some Decrement"]
  note offline = addRow_db_write_iff_required [OF h, where u = ex_utils and settles = ex_offline
      and row = ?rows and ignoreRequiredFields = None and setId = "Some Decrement"]
  note inherited = addRow_db_write_iff_required [OF h', where u = ex_utils
      and settles = ex_online and row = "Row ex_unnamed_row" and ignoreRequiredFields = None
      and setId = None]
  have 1: "filter is_db (calls (addRowAtom ex_utils ex_online ex_atoms ?rows None (Some Decrement))) =
     [UpdateRowDb ''t/r5-''
        [''score'' \<mapsto> JNum 7, ''status'' \<mapsto> JStr ''new'', ''_createdBy'' \<mapsto> JStr ''ada'',
         ''_updatedBy'' \<mapsto> JStr ''ada'', ''name'' \<mapsto> JStr ''bob'']
        None]"
    using online[THEN conjunct1] required(1,2)
    by (simp add: rows providedRows_def truthy_def written)
  have 2: "filter is_db (calls (addRowAtom ex_utils ex_offline ex_atoms ?rows None (Some Decrement))) =
     [UpdateRowDb ''t/r5-''
        [''score'' \<mapsto> JNum 7, ''status'' \<mapsto> JStr ''new'', ''_createdBy'' \<mapsto> JStr ''ada'',
         ''_updatedBy'' \<mapsto> JStr ''ada'', ''name'' \<mapsto> JStr ''bob'']
        None]"
    using offline[THEN conjunct1] required(1,2)
    by (simp add: rows providedRows_def truthy_def written)
  have 3: "thrown (addRowAtom ex_utils ex_online ex_atoms ?rows None (Some Decrement)) = None"
    using online[THEN conjunct2, THEN conjunct2, THEN conjunct2, THEN conjunct2]
    unfolding 1 by (simp add: ex_online_def)
  have 4: "thrown (addRowAtom ex_utils ex_offline ex_atoms ?rows None (Some Decrement))
      = Some (Error ''offline'')"
    using offline[THEN conjunct2, THEN conjunct2, THEN conjunct2, THEN conjunct2]
    unfolding 2 by (simp add: ex_offline_def is_db_def)
  have 5: "filter is_db (calls (addRowAtom ex_utils ex_online ?atoms (Row ex_unnamed_row) None None)) =
     [UpdateRowDb ''t/n2''
        [''score'' \<mapsto> JNum 7, ''_createdBy'' \<mapsto> JStr ''ada'', ''_updatedBy'' \<mapsto> JStr ''ada'']
        None]"
    using inherited[THEN conjunct1] required(3)
    by (simp add: rowsToAdd_None providedRows_def truthy_def written' path)
  from h 1 3 4 5 show ?thesis by simp
qed

text \<open>
  C2, as amended. For every row processed by \<^verbatim>\<open>addRowAtom\<close>, the row is added to the local
  rows exactly when a required field is missing, or the row has
  \<^verbatim>\<open>_rowy_outOfOrder === true\<close>, or some filter key is given no initial value (no filter on
  that key has operator \<^verbatim>\<open>==\<close> or \<^verbatim>\<open>array-contains\<close>), or \<^verbatim>\<open>setId\<close> is not
  \<^verbatim>\<open>"decrement"\<close>; the row stored is the row's own properties over the initial values, and
  it carries \<^verbatim>\<open>_rowy_outOfOrder\<close> true exactly under the last three conditions. These are
  all the local dispatches made, in the order of the rows.
\<close>

theorem addRow_local_iff:
  assumes "updateRowDbAtom a" "tableSettingsAtom a = Some ts" "currentUserAtom a = Some cu"
  shows "filter is_local (calls (addRowAtom u settles a row ignoreRequiredFields setId)) =
       concat (map2
         (\<lambda>provided r.
            let outOfOrder =
                  (get_prop (row_obj provided) ''_rowy_outOfOrder'' = JBool True
                   \<or> unassignedFilterKey (tableFiltersAtom a)
                   \<or> setId \<noteq> Some Decrement)
            in if requiredFieldMissing ignoreRequiredFields (tableColumnsOrderedAtom a) provided
                  \<or> outOfOrder
               then [SetRowsLocal (LocalAdd
                       ((addInitialValues u ts cu (tableFiltersAtom a) (tableColumnsOrderedAtom a) r
                           ++ row_obj r)
                          (''_rowy_outOfOrder'' \<mapsto> JBool outOfOrder)))]
               else [])
         (providedRows row) (rowsToAdd u a setId row)) \<and>
     length (rowsToAdd u a setId row) = length (providedRows row) \<and>
     map row_fields (rowsToAdd u a setId row) = map row_fields (providedRows row) \<and>
     (setId = None \<longrightarrow> rowsToAdd u a setId row = providedRows row)"
proof -
  let ?cols = "tableColumnsOrderedAtom a"
  let ?fs = "tableFiltersAtom a"
  let ?single = "addSingleRowAndAudit u settles ts cu (auditChangeAtom a) ?fs ?cols
                   ignoreRequiredFields setId"
  let ?F = "\<lambda>provided r.
            let outOfOrder =
                  (get_prop (row_obj provided) ''_rowy_outOfOrder'' = JBool True
                   \<or> unassignedFilterKey ?fs \<or> setId \<noteq> Some Decrement)
            in if requiredFieldMissing ignoreRequiredFields ?cols provided \<or> outOfOrder
               then [SetRowsLocal (LocalAdd
                       ((addInitialValues u ts cu ?fs ?cols r ++ row_obj r)
                          (''_rowy_outOfOrder'' \<mapsto> JBool outOfOrder)))]
               else []"
  let ?G = "\<lambda>r. ?F r r"
  have run: "addRowAtom u settles a row ignoreRequiredFields setId
      = fanOut ?single (rowsToAdd u a setId row)"
    by (rule addRowAtom_run[OF assms])
  have req: "requiredFieldMissing ignoreRequiredFields ?cols (withId setId i p)
      = requiredFieldMissing ignoreRequiredFields ?cols p" for p i
    by (simp add: requiredFieldMissing_def get_prop_withId)
  have FG: "?F p (withId setId i p) = ?G (withId setId i p)" for p i
    by (simp add: req outOfOrder_withId)
  have "map2 ?F (providedRows row) (rowsToAdd u a setId row) = map ?G (rowsToAdd u a setId row)"
    by (rule map2_rowsToAdd) (rule FG)
  moreover have "filter is_local (calls (fanOut ?single rs)) = concat (map ?G rs)" for rs
    by (simp add: filter_two_phases[of is_local ?single, OF single_local(2)] single_local(1))
  ultimately have "filter is_local (calls (addRowAtom u settles a row ignoreRequiredFields setId))
      = concat (map2 ?F (providedRows row) (rowsToAdd u a setId row))"
    by (simp only: run)
  then show ?thesis
    by (simp add: length_rowsToAdd row_fields_rowsToAdd rowsToAdd_None)
qed

theorem addRow_local_iff_witness:
  "updateRowDbAtom ex_atoms \<and> tableSettingsAtom ex_atoms = Some ex_settings \<and>
   currentUserAtom ex_atoms = Some ex_user \<and>
   filter is_local
     (calls (addRowAtom ex_utils ex_online ex_atoms (Rows [ex_named_row, ex_unnamed_row])
               None (Some Decrement))) =
     [SetRowsLocal (LocalAdd
        [''_rowy_ref'' \<mapsto> JObj [(''id'', JStr ''r5--''), (''path'', JStr ''t/r5--'')],
         ''score'' \<mapsto> JNum 7, ''status'' \<mapsto> JStr ''new'', ''_createdBy'' \<mapsto> JStr ''ada'',
         ''_updatedBy'' \<mapsto> JStr ''ada'', ''_rowy_outOfOrder'' \<mapsto> JBool False])] \<and>
   filter is_local
     (calls (addRowAtom ex_utils ex_online
               (ex_atoms\<lparr>tableFiltersAtom := [], tableColumnsOrderedAtom := ex_inherited_columns\<rparr>)
               (Row ex_unnamed_row) None (Some Decrement))) = []"
proof -
  let ?rows = "Rows [ex_named_row, ex_unnamed_row]"
  let ?atoms = "ex_atoms\<lparr>tableFiltersAtom := [], tableColumnsOrderedAtom := ex_inherited_columns\<rparr>"
  let ?r2 = "ex_unnamed_row\<lparr>rowy_ref := \<lparr>ref_id = ''r5--'', ref_path = ''t/r5--''\<rparr>\<rparr>"
  have h: "updateRowDbAtom ex_atoms" "tableSettingsAtom ex_atoms = Some ex_settings"
    "currentUserAtom ex_atoms = Some ex_user"
    and h': "updateRowDbAtom ?atoms" "tableSettingsAtom ?atoms = Some ex_settings"
    "currentUserAtom ?atoms = Some ex_user"
    by (simp_all add: ex_atoms_def)
  have rows: "rowsToAdd ex_utils ex_atoms (Some Decrement) ?rows =
      [ex_named_row\<lparr>rowy_ref := \<lparr>ref_id = ''r5-'', ref_path = ''t/r5-''\<rparr>\<rparr>, ?r2]"
    by (simp add: rowsToAdd_def ex_atoms_def ex_utils_def newId_def withId_def firstDbId_def
        parent_path_def split_slash_def ex_named_row_def ex_unnamed_row_def ex_db_row_def Let_def)
  have filters: "\<not> unassignedFilterKey (tableFiltersAtom ex_atoms)"
    "\<not> unassignedFilterKey []"
    by (simp_all add: unassignedFilterKey_def ex_atoms_def ex_filter_gt_def ex_filter_eq_def
        assignable_def)
  have named: "\<not> requiredFieldMissing None (tableColumnsOrderedAtom ex_atoms) ex_named_row"
    and unnamed: "requiredFieldMissing None (tableColumnsOrderedAtom ex_atoms) ex_unnamed_row"
    and inherited: "\<not> requiredFieldMissing None ex_inherited_columns ex_unnamed_row"
    by (simp_all add: requiredFieldMissing_def ex_atoms_def ex_columns_def ex_inherited_columns_def
        column_required_def truthy_def get_prop_def row_obj_def ex_named_row_def
        ex_unnamed_row_def object_prototype_def)
  have ooo: "get_prop (row_obj ex_named_row) ''_rowy_outOfOrder'' \<noteq> JBool True"
    "get_prop (row_obj ex_unnamed_row) ''_rowy_outOfOrder'' \<noteq> JBool True"
    by (simp_all add: get_prop_def row_obj_def ex_named_row_def ex_unnamed_row_def
        object_prototype_def)
  have stored: "(addInitialValues ex_utils ex_settings ex_user (tableFiltersAtom ex_atoms)
         (tableColumnsOrderedAtom ex_atoms) ?r2 ++ row_obj ?r2)
        (''_rowy_outOfOrder'' \<mapsto> JBool False)
      = [''_rowy_ref'' \<mapsto> JObj [(''id'', JStr ''r5--''), (''path'', JStr ''t/r5--'')],
         ''score'' \<mapsto> JNum 7, ''status'' \<mapsto> JStr ''new'', ''_createdBy'' \<mapsto> JStr ''ada'',
         ''_updatedBy'' \<mapsto> JStr ''ada'', ''_rowy_outOfOrder'' \<mapsto> JBool False]"
    by (rule ext)
       (simp add: ex_utils_def addInitialValues_def setAuditFields_def ex_settings_def
          or_default_def ex_atoms_def ex_columns_def column_default_def ex_filter_gt_def
          ex_filter_eq_def ex_user_def row_obj_def ex_unnamed_row_def map_add_def Let_def
          ref_val_def)
  have 1: "filter is_local
     (calls (addRowAtom ex_utils ex_online ex_atoms ?rows None (Some Decrement))) =
     [SetRowsLocal (LocalAdd
        [''_rowy_ref'' \<mapsto> JObj [(''id'', JStr ''r5--''), (''path'', JStr ''t/r5--'')],
         ''score'' \<mapsto> JNum 7, ''status'' \<mapsto> JStr ''new'', ''_createdBy'' \<mapsto> JStr ''ada'',
         ''_updatedBy'' \<mapsto> JStr ''ada'', ''_rowy_outOfOrder'' \<mapsto> JBool False])]"
    using addRow_local_iff [OF h, where u = ex_utils and settles = ex_online and row = ?rows
        and ignoreRequiredFields = None and setId = "Some Decrement", THEN conjunct1]
    by (simp add: rows providedRows_def filters named unnamed ooo stored)
  have 2: "filter is_local
     (calls (addRowAtom ex_utils ex_online ?atoms (Row ex_unnamed_row) None (Some Decrement))) = []"
    using addRow_local_iff [OF h', where u = ex_utils and settles = ex_online
        and row = "Row ex_unnamed_row" and ignoreRequiredFields = None
        and setId = "Some Decrement", THEN conjunct1]
    by (simp add: providedRows_def rowsToAdd_def filters inherited ooo)
  from h 1 2 show ?thesis by simp
qed

text \<open>
  The claim C2 as first stated takes a filter whose operator is neither \<^verbatim>\<open>==\<close> nor
  \<^verbatim>\<open>array-contains\<close> to put the row out of order. With the filters \<^verbatim>\<open>score > 5\<close> and
  \<^verbatim>\<open>score == 7\<close> the key \<^verbatim>\<open>score\<close> is given the value 7 and leaves \<^verbatim>\<open>outOfOrderFilters\<close>:
  a complete row added with \<^verbatim>\<open>setId: "decrement"\<close> is not added to the local rows.
\<close>

theorem addRow_local_counterexample:
  "ex_filter_gt \<in> set (tableFiltersAtom ex_atoms) \<and>
   filter_operator ex_filter_gt \<noteq> ''=='' \<and>
   filter_operator ex_filter_gt \<noteq> ''array-contains'' \<and>
   filter is_local
     (calls (addRowAtom ex_utils ex_online ex_atoms (Row ex_named_row) None (Some Decrement))) = [] \<and>
   thrown (addRowAtom ex_utils ex_online ex_atoms (Row ex_named_row) None (Some Decrement)) = None"
  by (simp add: ex_atoms_def ex_filter_gt_def ex_filter_eq_def addRowAtom_def
      addSingleRowAndAudit_def Let_def addOutOfOrderFilters_def missingRequiredFields_def
      requiredFields_def truthy_def ex_columns_def column_required_def get_prop_def row_obj_def
      withId_def newId_def ex_named_row_def is_local_def awaited_def calls_def thrown_def
      ex_online_def object_prototype_def)

section \<open>deleteRowAtom: local rows and remote rows\<close>

text \<open>
  C4. For every path given to \<^verbatim>\<open>deleteRowAtom\<close>: if a row with that path is in the local
  rows state, the delete is dispatched to the local rows and \<^verbatim>\<open>deleteRowDb\<close> is not called
  for that path; otherwise \<^verbatim>\<open>deleteRowDb\<close> is called for that path and no local delete is
  dispatched for it. These are all the local dispatches and database calls made. The atom
  throws exactly when one of the database deletes is rejected.
\<close>

theorem deleteRow_local_or_remote:
  assumes "deleteRowDbAtom a"
  shows "\<exists>trace rejected. deleteRowAtom settles a path = (trace, rejected) \<and>
     filter is_local trace =
       map (\<lambda>p. SetRowsLocal (LocalDelete p)) (filter (\<lambda>p. p \<in> localPaths a) (providedPaths path)) \<and>
     filter is_db trace =
       map DeleteRowDb (filter (\<lambda>p. p \<notin> localPaths a) (providedPaths path)) \<and>
     (\<forall>p \<in> set (providedPaths path).
        (p \<in> localPaths a \<longrightarrow>
           SetRowsLocal (LocalDelete p) \<in> set trace \<and> DeleteRowDb p \<notin> set trace) \<and>
        (p \<notin> localPaths a \<longrightarrow>
           DeleteRowDb p \<in> set trace \<and> SetRowsLocal (LocalDelete p) \<notin> set trace)) \<and>
     rejected = firstRejection (map settles (filter is_db trace))"
proof -
  let ?ps = "providedPaths path"
  let ?single = "deleteSingleRowAndAudit settles (auditChangeAtom a) (tableRowsLocalAtom a)"
  let ?t = "calls (fanOut ?single ?ps)"
  let ?e = "thrown (fanOut ?single ?ps)"
  have run: "deleteRowAtom settles a path = (?t, ?e)"
    by (simp add: deleteRowAtom_run[OF assms] calls_def thrown_def)
  have loc: "filter is_local ?t =
      map (\<lambda>p. SetRowsLocal (LocalDelete p)) (filter (\<lambda>p. p \<in> localPaths a) ?ps)"
    by (simp add: filter_two_phases[of is_local ?single, OF delete_single_local(2)]
        delete_single_local(1) concat_map_if_filter)
  have db: "filter is_db ?t = map DeleteRowDb (filter (\<lambda>p. p \<notin> localPaths a) ?ps)"
    by (simp add: filter_two_phases[of is_db ?single, OF delete_single_db(2)]
        delete_single_db(1) concat_map_if_not_filter)
  have thr: "?e = firstRejection (map settles (filter is_db ?t))"
    by (rule rejection_two_phases) (rule delete_single_db(2), rule delete_single_rejection)
  have mem_loc: "SetRowsLocal (LocalDelete p) \<in> set ?t \<longleftrightarrow> p \<in> set ?ps \<and> p \<in> localPaths a" for p
  proof -
    have "SetRowsLocal (LocalDelete p) \<in> set ?t
        \<longleftrightarrow> SetRowsLocal (LocalDelete p) \<in> set (filter is_local ?t)"
      by (rule in_filter_sink) (simp add: is_local_def)
    also have "\<dots> \<longleftrightarrow> p \<in> set ?ps \<and> p \<in> localPaths a"
      unfolding loc by auto
    finally show ?thesis .
  qed
  have mem_db: "DeleteRowDb p \<in> set ?t \<longleftrightarrow> p \<in> set ?ps \<and> p \<notin> localPaths a" for p
  proof -
    have "DeleteRowDb p \<in> set ?t \<longleftrightarrow> DeleteRowDb p \<in> set (filter is_db ?t)"
      by (rule in_filter_sink) (simp add: is_db_def)
    also have "\<dots> \<longleftrightarrow> p \<in> set ?ps \<and> p \<notin> localPaths a"
      unfolding db by auto
    finally show ?thesis .
  qed
  have each: "\<forall>p \<in> set ?ps.
        (p \<in> localPaths a \<longrightarrow>
           SetRowsLocal (LocalDelete p) \<in> set ?t \<and> DeleteRowDb p \<notin> set ?t) \<and>
        (p \<notin> localPaths a \<longrightarrow>
           DeleteRowDb p \<in> set ?t \<and> SetRowsLocal (LocalDelete p) \<notin> set ?t)"
    by (simp only: mem_loc mem_db, simp)
  from run loc db each thr show ?thesis
    by blast
qed

theorem deleteRow_local_or_remote_witness:
  "deleteRowDbAtom ex_atoms \<and>
   (\<exists>trace. deleteRowAtom ex_offline ex_atoms (Paths [''t/r1'', ''t/r5''])
               = (trace, Some (Error ''offline'')) \<and>
      filter is_local trace = [SetRowsLocal (LocalDelete ''t/r1'')] \<and>
      filter is_db trace = [DeleteRowDb ''t/r5''] \<and>
      SetRowsLocal (LocalDelete ''t/r1'') \<in> set trace \<and> DeleteRowDb ''t/r1'' \<notin> set trace \<and>
      DeleteRowDb ''t/r5'' \<in> set trace \<and> SetRowsLocal (LocalDelete ''t/r5'') \<notin> set trace) \<and>
   (\<exists>trace. deleteRowAtom ex_online ex_atoms (Paths [''t/r1'', ''t/r5'']) = (trace, None) \<and>
      filter is_local trace = [SetRowsLocal (LocalDelete ''t/r1'')] \<and>
      filter is_db trace = [DeleteRowDb ''t/r5''])"
proof -
  have h: "deleteRowDbAtom ex_atoms"
    by (simp add: ex_atoms_def)
  have paths: "localPaths ex_atoms = {''t/r1''}"
    by (simp add: localPaths_def ex_atoms_def ex_local_row_def)
  have off: "\<exists>trace. deleteRowAtom ex_offline ex_atoms (Paths [''t/r1'', ''t/r5''])
               = (trace, Some (Error ''offline'')) \<and>
      filter is_local trace = [SetRowsLocal (LocalDelete ''t/r1'')] \<and>
      filter is_db trace = [DeleteRowDb ''t/r5''] \<and>
      SetRowsLocal (LocalDelete ''t/r1'') \<in> set trace \<and> DeleteRowDb ''t/r1'' \<notin> set trace \<and>
      DeleteRowDb ''t/r5'' \<in> set trace \<and> SetRowsLocal (LocalDelete ''t/r5'') \<notin> set trace"
    using deleteRow_local_or_remote [OF h, of ex_offline "Paths [''t/r1'', ''t/r5'']"]
    by (auto simp: paths providedPaths_def ex_offline_def is_db_def)
  have on: "\<exists>trace. deleteRowAtom ex_online ex_atoms (Paths [''t/r1'', ''t/r5'']) = (trace, None) \<and>
      filter is_local trace = [SetRowsLocal (LocalDelete ''t/r1'')] \<and>
      filter is_db trace = [DeleteRowDb ''t/r5'']"
    using deleteRow_local_or_remote [OF h, of ex_online "Paths [''t/r1'', ''t/r5'']"]
    by (auto simp: paths providedPaths_def ex_online_def)
  from h off on show ?thesis by blast
qed

section \<open>The audit trail\<close>

text \<open>
  C3, as amended. Whenever an audit function is configured: \<^verbatim>\<open>addRowAtom\<close> records one
  \<^verbatim>\<open>"ADD_ROW"\<close> entry, with the row's path, for every row it processes whose database write,
  if one is made, is fulfilled; \<^verbatim>\<open>deleteRowAtom\<close> records one \<^verbatim>\<open>"DELETE_ROW"\<close> entry for every
  path it processes whose database delete, if one is made, is fulfilled; and
  \<^verbatim>\<open>updateFieldAtom\<close> records one \<^verbatim>\<open>"UPDATE_CELL"\<close> entry, with the path and the updated
  field name, for every invocation that finds the row, is not skipped because the value
  equals the current one, and does not throw, which it does exactly when its database
  write is rejected. No other entry is recorded.
\<close>

theorem audit_entry_per_mutation:
  assumes "auditChangeAtom a"
  shows
    "(updateRowDbAtom a \<and> tableSettingsAtom a = Some ts \<and> currentUserAtom a = Some cu \<longrightarrow>
        mset (filter is_audit (calls (addRowAtom u settles a row ignoreRequiredFields setId))) =
          mset (map (\<lambda>r. AuditChange ADD_ROW (ref_path (rowy_ref r)) None)
                 (filter
                    (\<lambda>r. requiredFieldMissing ignoreRequiredFields (tableColumnsOrderedAtom a) r
                         \<or> settles
                             (UpdateRowDb (ref_path (rowy_ref r))
                                (omitRowyFields u
                                   (addInitialValues u ts cu (tableFiltersAtom a)
                                      (tableColumnsOrderedAtom a) r ++ row_obj r))
                                None) = None)
                    (rowsToAdd u a setId row)))) \<and>
     (deleteRowDbAtom a \<longrightarrow>
        mset (filter is_audit (calls (deleteRowAtom settles a paths))) =
          mset (map (\<lambda>p. AuditChange DELETE_ROW p None)
                 (filter (\<lambda>p. p \<in> localPaths a \<or> settles (DeleteRowDb p) = None)
                    (providedPaths paths)))) \<and>
     (updateRowDbAtom a \<and> tableSettingsAtom a \<noteq> None \<and> currentUserAtom a \<noteq> None \<and>
      findRow (tableRowsAtom a) path = Some found \<and>
      (truthy deleteField \<or> truthy disableCheckEquality
       \<or> \<not> isEqual lo (lodash_get lo (row_obj found) fieldName) v) \<longrightarrow>
        filter is_audit
          (calls (updateFieldAtom u lo settles a path fieldName v deleteField
                    ignoreRequiredFields disableCheckEquality)) =
          (if thrown (updateFieldAtom u lo settles a path fieldName v deleteField
                        ignoreRequiredFields disableCheckEquality) = None
           then [AuditChange UPDATE_CELL path (Some fieldName)] else []) \<and>
        thrown (updateFieldAtom u lo settles a path fieldName v deleteField
                  ignoreRequiredFields disableCheckEquality) =
          firstRejection (map settles (filter is_db
            (calls (updateFieldAtom u lo settles a path fieldName v deleteField
                      ignoreRequiredFields disableCheckEquality)))))"
proof (intro conjI impI)
  have au: "auditChangeAtom a = True"
    using assms by simp
  {
    assume "updateRowDbAtom a \<and> tableSettingsAtom a = Some ts \<and> currentUserAtom a = Some cu"
    then have pre: "updateRowDbAtom a" "tableSettingsAtom a = Some ts"
        "currentUserAtom a = Some cu"
      by simp_all
    show "mset (filter is_audit (calls (addRowAtom u settles a row ignoreRequiredFields setId))) =
          mset (map (\<lambda>r. AuditChange ADD_ROW (ref_path (rowy_ref r)) None)
                 (filter
                    (\<lambda>r. requiredFieldMissing ignoreRequiredFields (tableColumnsOrderedAtom a) r
                         \<or> settles
                             (UpdateRowDb (ref_path (rowy_ref r))
                                (omitRowyFields u
                                   (addInitialValues u ts cu (tableFiltersAtom a)
                                      (tableColumnsOrderedAtom a) r ++ row_obj r))
                                None) = None)
                    (rowsToAdd u a setId row)))"
      unfolding addRowAtom_run[OF pre] au
      by (rule audit_two_phases) (rule single_audit)
  }
  {
    assume del: "deleteRowDbAtom a"
    show "mset (filter is_audit (calls (deleteRowAtom settles a paths))) =
          mset (map (\<lambda>p. AuditChange DELETE_ROW p None)
                 (filter (\<lambda>p. p \<in> localPaths a \<or> settles (DeleteRowDb p) = None)
                    (providedPaths paths)))"
      unfolding deleteRowAtom_run[OF del] au
      by (rule audit_two_phases) (rule delete_single_audit)
  }
  {
    assume "updateRowDbAtom a \<and> tableSettingsAtom a \<noteq> None \<and> currentUserAtom a \<noteq> None \<and>
      findRow (tableRowsAtom a) path = Some found \<and>
      (truthy deleteField \<or> truthy disableCheckEquality
       \<or> \<not> isEqual lo (lodash_get lo (row_obj found) fieldName) v)"
    then obtain ts' cu' where pre: "updateRowDbAtom a" "tableSettingsAtom a = Some ts'"
        "currentUserAtom a = Some cu'" "findRow (tableRowsAtom a) path = Some found"
        "truthy deleteField \<or> truthy disableCheckEquality
         \<or> \<not> isEqual lo (lodash_get lo (row_obj found) fieldName) v"
      by auto
    show "filter is_audit
          (calls (updateFieldAtom u lo settles a path fieldName v deleteField
                    ignoreRequiredFields disableCheckEquality)) =
          (if thrown (updateFieldAtom u lo settles a path fieldName v deleteField
                        ignoreRequiredFields disableCheckEquality) = None
           then [AuditChange UPDATE_CELL path (Some fieldName)] else [])"
      by (rule updateFieldAtom_audit[OF pre assms])
    show "thrown (updateFieldAtom u lo settles a path fieldName v deleteField
                  ignoreRequiredFields disableCheckEquality) =
          firstRejection (map settles (filter is_db
            (calls (updateFieldAtom u lo settles a path fieldName v deleteField
                      ignoreRequiredFields disableCheckEquality))))"
      by (rule updateFieldAtom_thrown[OF pre])
  }
qed

theorem audit_entry_per_mutation_witness:
  "auditChangeAtom ex_atoms \<and>
   updateRowDbAtom ex_atoms \<and> tableSettingsAtom ex_atoms = Some ex_settings \<and>
   currentUserAtom ex_atoms = Some ex_user \<and>
   mset (filter is_audit
           (calls (addRowAtom ex_utils ex_online ex_atoms (Rows [ex_named_row, ex_unnamed_row])
                     None None))) =
     {#AuditChange ADD_ROW ''t/n1'' None, AuditChange ADD_ROW ''t/n2'' None#} \<and>
   mset (filter is_audit
           (calls (addRowAtom ex_utils ex_offline ex_atoms (Rows [ex_named_row, ex_unnamed_row])
                     None None))) =
     {#AuditChange ADD_ROW ''t/n2'' None#} \<and>
   deleteRowDbAtom ex_atoms \<and>
   mset (filter is_audit (calls (deleteRowAtom ex_online ex_atoms (Paths [''t/r5'', ''t/r1'']))))
     = {#AuditChange DELETE_ROW ''t/r5'' None, AuditChange DELETE_ROW ''t/r1'' None#} \<and>
   mset (filter is_audit (calls (deleteRowAtom ex_offline ex_atoms (Paths [''t/r5'', ''t/r1'']))))
     = {#AuditChange DELETE_ROW ''t/r1'' None#} \<and>
   findRow (tableRowsAtom ex_atoms) ''t/r5'' = Some ex_db_row \<and>
   \<not> isEqual ex_lodash (lodash_get ex_lodash (row_obj ex_db_row) ''name'') (JStr ''zoe'') \<and>
   thrown (updateFieldAtom ex_utils ex_lodash ex_online ex_atoms ''t/r5'' ''name'' (JStr ''zoe'')
             None None None) = None \<and>
   filter is_audit
     (calls (updateFieldAtom ex_utils ex_lodash ex_online ex_atoms ''t/r5'' ''name'' (JStr ''zoe'')
               None None None))
     = [AuditChange UPDATE_CELL ''t/r5'' (Some ''name'')]"
proof -
  let ?rows = "Rows [ex_named_row, ex_unnamed_row]"
  let ?paths = "Paths [''t/r5'', ''t/r1'']"
  have h: "auditChangeAtom ex_atoms" "updateRowDbAtom ex_atoms"
    "tableSettingsAtom ex_atoms = Some ex_settings" "currentUserAtom ex_atoms = Some ex_user"
    "deleteRowDbAtom ex_atoms"
    "findRow (tableRowsAtom ex_atoms) ''t/r5'' = Some ex_db_row"
    "\<not> isEqual ex_lodash (lodash_get ex_lodash (row_obj ex_db_row) ''name'') (JStr ''zoe'')"
    by (simp_all add: ex_atoms_def findRow_def ex_local_row_def ex_db_row_def
        ex_lodash_def get_prop_def row_obj_def object_prototype_def)
  have rows: "rowsToAdd ex_utils ex_atoms None ?rows = [ex_named_row, ex_unnamed_row]"
    by (simp add: rowsToAdd_None providedRows_def)
  have row_paths: "ref_path (rowy_ref ex_named_row) = ''t/n1''"
    "ref_path (rowy_ref ex_unnamed_row) = ''t/n2''"
    by (simp_all add: ex_named_row_def ex_unnamed_row_def)
  have missing: "\<not> requiredFieldMissing None (tableColumnsOrderedAtom ex_atoms) ex_named_row"
    "requiredFieldMissing None (tableColumnsOrderedAtom ex_atoms) ex_unnamed_row"
    by (simp_all add: requiredFieldMissing_def ex_atoms_def ex_columns_def column_required_def
        truthy_def get_prop_def row_obj_def ex_named_row_def ex_unnamed_row_def
        object_prototype_def)
  have local: "localPaths ex_atoms = {''t/r1''}"
    by (simp add: localPaths_def ex_atoms_def ex_local_row_def)
  note online = audit_entry_per_mutation [OF h(1), where u = ex_utils and settles = ex_online
      and ts = ex_settings and cu = ex_user and row = ?rows and ignoreRequiredFields = None
      and setId = None and paths = ?paths and path = "''t/r5''" and found = ex_db_row
      and deleteField = None and disableCheckEquality = None and lo = ex_lodash
      and fieldName = "''name''" and v = "JStr ''zoe''"]
  note offline = audit_entry_per_mutation [OF h(1), where u = ex_utils and settles = ex_offline
      and ts = ex_settings and cu = ex_user and row = ?rows and ignoreRequiredFields = None
      and setId = None and paths = ?paths]
  have 1: "mset (filter is_audit (calls (addRowAtom ex_utils ex_online ex_atoms ?rows None None))) =
     {#AuditChange ADD_ROW ''t/n1'' None, AuditChange ADD_ROW ''t/n2'' None#}"
    using online[THEN conjunct1] h
    by (simp add: rows row_paths missing ex_online_def)
  have 2: "mset (filter is_audit (calls (addRowAtom ex_utils ex_offline ex_atoms ?rows None None))) =
     {#AuditChange ADD_ROW ''t/n2'' None#}"
    using offline[THEN conjunct1] h
    by (simp add: rows row_paths missing ex_offline_def is_db_def)
  have 3: "mset (filter is_audit (calls (deleteRowAtom ex_online ex_atoms ?paths)))
     = {#AuditChange DELETE_ROW ''t/r5'' None, AuditChange DELETE_ROW ''t/r1'' None#}"
    using online[THEN conjunct2, THEN conjunct1] h
    by (simp add: providedPaths_def local ex_online_def)
  have 4: "mset (filter is_audit (calls (deleteRowAtom ex_offline ex_atoms ?paths)))
     = {#AuditChange DELETE_ROW ''t/r1'' None#}"
    using offline[THEN conjunct2, THEN conjunct1] h
    by (simp add: providedPaths_def local ex_offline_def is_db_def)
  have upd: "filter is_audit
          (calls (updateFieldAtom ex_utils ex_lodash ex_online ex_atoms ''t/r5'' ''name''
                    (JStr ''zoe'') None None None)) =
          (if thrown (updateFieldAtom ex_utils ex_lodash ex_online ex_atoms ''t/r5'' ''name''
                        (JStr ''zoe'') None None None) = None
           then [AuditChange UPDATE_CELL ''t/r5'' (Some ''name'')] else [])"
    and thr: "thrown (updateFieldAtom ex_utils ex_lodash ex_online ex_atoms ''t/r5'' ''name''
                  (JStr ''zoe'') None None None) =
          firstRejection (map ex_online (filter is_db
            (calls (updateFieldAtom ex_utils ex_lodash ex_online ex_atoms ''t/r5'' ''name''
                      (JStr ''zoe'') None None None))))"
    using online[THEN conjunct2, THEN conjunct2] h by simp_all
  have 5: "thrown (updateFieldAtom ex_utils ex_lodash ex_online ex_atoms ''t/r5'' ''name''
             (JStr ''zoe'') None None None) = None"
    unfolding thr by (simp add: firstRejection_None_iff ex_online_def)
  from upd 5 have 6: "filter is_audit
     (calls (updateFieldAtom ex_utils ex_lodash ex_online ex_atoms ''t/r5'' ''name'' (JStr ''zoe'')
               None None None))
     = [AuditChange UPDATE_CELL ''t/r5'' (Some ''name'')]"
    by simp
  from h 1 2 3 4 5 6 show ?thesis by simp
qed

text \<open>
  The claim C3 as first stated has an entry recorded for every invocation, row and path,
  with an audit function configured. An update of \<^verbatim>\<open>name\<close> to the value the row already
  holds returns before the audit call; and a database delete that is rejected is not
  followed by the audit call.
\<close>

theorem audit_entry_per_mutation_counterexample:
  "auditChangeAtom ex_atoms \<and>
   updateFieldAtom ex_utils ex_lodash ex_online ex_atoms ''t/r5'' ''name'' (JStr ''eve'')
     None (Some True) None = ([], None) \<and>
   deleteRowAtom ex_offline ex_atoms (Path ''t/r5'')
     = ([DeleteRowDb ''t/r5''], Some (Error ''offline''))"
  by (simp add: updateFieldAtom_def ex_atoms_def findRow_def ex_local_row_def ex_db_row_def
      truthy_def ex_lodash_def get_prop_def row_obj_def Let_def deleteRowAtom_def
      deleteSingleRowAndAudit_def isLocalRow_def awaited_def ex_offline_def is_db_def)

section \<open>Audit fields\<close>

text \<open>
  C5, as amended. Unless auditing is explicitly disabled, the initial values composed by
  \<^verbatim>\<open>addRowAtom\<close> and \<^verbatim>\<open>bulkAddRowsAtom\<close> hold the current user under both audit field
  names (the configured ones, else \<^verbatim>\<open>_createdBy\<close> and \<^verbatim>\<open>_updatedBy\<close>), and every update
  composed by \<^verbatim>\<open>updateFieldAtom\<close> is the object holding the current user under the
  updated-by name, to which the new value of the field is then applied (nothing is
  applied when the field is deleted). With auditing disabled the initial values are the
  ones from filters and defaults alone, and the update starts empty.
\<close>

theorem audit_fields_of_mutations:
  "(audit ts \<noteq> Some False \<longrightarrow>
      addInitialValues u ts cu fs cols r (or_default (auditFieldCreatedBy ts) ''_createdBy'')
        = Some (rowyUser u cu) \<and>
      addInitialValues u ts cu fs cols r (or_default (auditFieldUpdatedBy ts) ''_updatedBy'')
        = Some (rowyUser u cu) \<and>
      bulkInitialValues u ts cu cols (or_default (auditFieldCreatedBy ts) ''_createdBy'')
        = Some (rowyUser u cu) \<and>
      bulkInitialValues u ts cu cols (or_default (auditFieldUpdatedBy ts) ''_updatedBy'')
        = Some (rowyUser u cu) \<and>
      updateAuditField u ts cu (or_default (auditFieldUpdatedBy ts) ''_updatedBy'')
        = Some (rowyUser u cu)) \<and>
   (audit ts = Some False \<longrightarrow>
      addInitialValues u ts cu fs cols r =
        setDefaultValues cols
          (fst (setFilterValues fs
             ([''_rowy_ref'' \<mapsto> ref_val (rowy_ref r)], set (map filter_key fs)))) \<and>
      bulkInitialValues u ts cu cols = setDefaultValues cols Map.empty \<and>
      updateAuditField u ts cu = Map.empty) \<and>
   (updateRowDbAtom a \<and> tableSettingsAtom a = Some ts \<and> currentUserAtom a = Some cu \<and>
    findRow (tableRowsAtom a) path = Some found \<and>
    (truthy deleteField \<or> truthy disableCheckEquality
     \<or> \<not> isEqual lo (lodash_get lo (row_obj found) fieldName) v) \<longrightarrow>
      (\<exists>trace rejected update.
         updateFieldAtom u lo settles a path fieldName v deleteField ignoreRequiredFields
           disableCheckEquality = (trace, rejected) \<and>
         update = (if truthy deleteField then updateAuditField u ts cu
                   else lodash_set lo (updateAuditField u ts cu) fieldName v) \<and>
         (path \<in> localPaths a \<longrightarrow>
            SetRowsLocal (LocalUpdate path update (if truthy deleteField then [fieldName] else []))
              \<in> set trace) \<and>
         (path \<notin> localPaths a \<longrightarrow>
            UpdateRowDb (ref_path (rowy_ref found)) (omitRowyFields u update)
              (Some (if truthy deleteField then [fieldName] else [])) \<in> set trace)))"
proof (intro conjI impI)
  assume on: "audit ts \<noteq> Some False"
  then show "addInitialValues u ts cu fs cols r (or_default (auditFieldCreatedBy ts) ''_createdBy'')
        = Some (rowyUser u cu)"
    and "addInitialValues u ts cu fs cols r (or_default (auditFieldUpdatedBy ts) ''_updatedBy'')
        = Some (rowyUser u cu)"
    unfolding addInitialValues_def by (rule setAuditFields_enabled)+
  from on show "bulkInitialValues u ts cu cols (or_default (auditFieldCreatedBy ts) ''_createdBy'')
        = Some (rowyUser u cu)"
    and "bulkInitialValues u ts cu cols (or_default (auditFieldUpdatedBy ts) ''_updatedBy'')
        = Some (rowyUser u cu)"
    unfolding bulkInitialValues_def by (rule setAuditFields_enabled)+
  from on show "updateAuditField u ts cu (or_default (auditFieldUpdatedBy ts) ''_updatedBy'')
        = Some (rowyUser u cu)"
    by (simp add: updateAuditField_def)
next
  assume off: "audit ts = Some False"
  then show "addInitialValues u ts cu fs cols r =
        setDefaultValues cols
          (fst (setFilterValues fs
             ([''_rowy_ref'' \<mapsto> ref_val (rowy_ref r)], set (map filter_key fs))))"
    by (simp add: addInitialValues_def setAuditFields_disabled)
  from off show "bulkInitialValues u ts cu cols = setDefaultValues cols Map.empty"
    by (simp add: bulkInitialValues_def setAuditFields_disabled)
  from off show "updateAuditField u ts cu = Map.empty"
    by (simp add: updateAuditField_def)
next
  assume "updateRowDbAtom a \<and> tableSettingsAtom a = Some ts \<and> currentUserAtom a = Some cu \<and>
    findRow (tableRowsAtom a) path = Some found \<and>
    (truthy deleteField \<or> truthy disableCheckEquality
     \<or> \<not> isEqual lo (lodash_get lo (row_obj found) fieldName) v)"
  then have pre: "updateRowDbAtom a" "tableSettingsAtom a = Some ts" "currentUserAtom a = Some cu"
      "findRow (tableRowsAtom a) path = Some found"
      "truthy deleteField \<or> truthy disableCheckEquality
       \<or> \<not> isEqual lo (lodash_get lo (row_obj found) fieldName) v"
    by simp_all
  show "\<exists>trace rejected update.
         updateFieldAtom u lo settles a path fieldName v deleteField ignoreRequiredFields
           disableCheckEquality = (trace, rejected) \<and>
         update = (if truthy deleteField then updateAuditField u ts cu
                   else lodash_set lo (updateAuditField u ts cu) fieldName v) \<and>
         (path \<in> localPaths a \<longrightarrow>
            SetRowsLocal (LocalUpdate path update (if truthy deleteField then [fieldName] else []))
              \<in> set trace) \<and>
         (path \<notin> localPaths a \<longrightarrow>
            UpdateRowDb (ref_path (rowy_ref found)) (omitRowyFields u update)
              (Some (if truthy deleteField then [fieldName] else [])) \<in> set trace)"
    by (simp only: updateFieldAtom_run[OF pre]) (simp add: Let_def)
qed

theorem audit_fields_of_mutations_witness:
  "audit ex_settings \<noteq> Some False \<and>
   addInitialValues ex_utils ex_settings ex_user [ex_filter_eq] ex_columns ex_named_row ''_createdBy''
     = Some (JStr ''ada'') \<and>
   addInitialValues ex_utils ex_settings ex_user [ex_filter_eq] ex_columns ex_named_row ''_updatedBy''
     = Some (JStr ''ada'') \<and>
   bulkInitialValues ex_utils ex_settings ex_user ex_columns ''_createdBy'' = Some (JStr ''ada'') \<and>
   bulkInitialValues ex_utils ex_settings ex_user ex_columns ''_updatedBy'' = Some (JStr ''ada'') \<and>
   audit (ex_settings\<lparr>audit := Some False\<rparr>) = Some False \<and>
   bulkInitialValues ex_utils (ex_settings\<lparr>audit := Some False\<rparr>) ex_user ex_columns
     = setDefaultValues ex_columns Map.empty \<and>
   updateAuditField ex_utils (ex_settings\<lparr>audit := Some False\<rparr>) ex_user = Map.empty \<and>
   updateRowDbAtom ex_atoms \<and> tableSettingsAtom ex_atoms = Some ex_settings \<and>
   currentUserAtom ex_atoms = Some ex_user \<and>
   findRow (tableRowsAtom ex_atoms) ''t/r5'' = Some ex_db_row \<and>
   \<not> isEqual ex_lodash (lodash_get ex_lodash (row_obj ex_db_row) ''name'') (JStr ''zoe'') \<and>
   ''t/r5'' \<notin> localPaths ex_atoms \<and>
   (\<exists>trace rejected.
      updateFieldAtom ex_utils ex_lodash ex_online ex_atoms ''t/r5'' ''name''
        (JStr ''zoe'') None None None = (trace, rejected) \<and>
      UpdateRowDb ''t/r5''
        (omitRowyFields ex_utils [''_updatedBy'' \<mapsto> JStr ''ada'', ''name'' \<mapsto> JStr ''zoe''])
        (Some []) \<in> set trace)"
proof -
  have on: "audit ex_settings \<noteq> Some False"
    and off: "audit (ex_settings\<lparr>audit := Some False\<rparr>) = Some False"
    by (simp_all add: ex_settings_def)
  have names: "or_default (auditFieldCreatedBy ex_settings) ''_createdBy'' = ''_createdBy''"
    "or_default (auditFieldUpdatedBy ex_settings) ''_updatedBy'' = ''_updatedBy''"
    "rowyUser ex_utils ex_user = JStr ''ada''"
    by (simp_all add: or_default_def ex_settings_def ex_utils_def ex_user_def)
  have h: "updateRowDbAtom ex_atoms" "tableSettingsAtom ex_atoms = Some ex_settings"
    "currentUserAtom ex_atoms = Some ex_user"
    "findRow (tableRowsAtom ex_atoms) ''t/r5'' = Some ex_db_row"
    "\<not> isEqual ex_lodash (lodash_get ex_lodash (row_obj ex_db_row) ''name'') (JStr ''zoe'')"
    "''t/r5'' \<notin> localPaths ex_atoms"
    by (simp_all add: ex_atoms_def findRow_def ex_local_row_def ex_db_row_def
        ex_lodash_def get_prop_def row_obj_def localPaths_def object_prototype_def)
  have upd: "lodash_set ex_lodash (updateAuditField ex_utils ex_settings ex_user) ''name'' (JStr ''zoe'')
      = [''_updatedBy'' \<mapsto> JStr ''ada'', ''name'' \<mapsto> JStr ''zoe'']"
    by (simp add: ex_lodash_def updateAuditField_def on names)
  have path: "ref_path (rowy_ref ex_db_row) = ''t/r5''"
    by (simp add: ex_db_row_def)
  note enabled = audit_fields_of_mutations [where ts = ex_settings and u = ex_utils
      and cu = ex_user and fs = "[ex_filter_eq]" and cols = ex_columns and r = ex_named_row
      and a = ex_atoms and path = "''t/r5''" and found = ex_db_row and deleteField = None
      and disableCheckEquality = None and lo = ex_lodash and fieldName = "''name''"
      and v = "JStr ''zoe''" and ignoreRequiredFields = None and settles = ex_online]
  note disabled = audit_fields_of_mutations [where ts = "ex_settings\<lparr>audit := Some False\<rparr>"
      and u = ex_utils and cu = ex_user and cols = ex_columns]
  show ?thesis
    using enabled disabled on off h
    by (simp add: names upd path truthy_def)
qed

text \<open>
  The claim C5 as first stated has every update composed by \<^verbatim>\<open>updateFieldAtom\<close> set the
  updated-by field to the current user. With auditing enabled and the current user
  \<^verbatim>\<open>ada\<close>, an update of the field \<^verbatim>\<open>_updatedBy\<close> itself writes the given value: the
  field update is applied after the audit field.
\<close>

theorem audit_fields_of_mutations_counterexample:
  "audit ex_settings \<noteq> Some False \<and>
   updateFieldAtom ex_utils ex_lodash ex_online ex_atoms ''t/r5'' ''_updatedBy''
       (JStr ''mallory'') None None None =
     ([UpdateRowDb ''t/r5'' (omitRowyFields ex_utils [''_updatedBy'' \<mapsto> JStr ''mallory''])
         (Some []),
       AuditChange UPDATE_CELL ''t/r5'' (Some ''_updatedBy'')], None) \<and>
   [''_updatedBy'' \<mapsto> JStr ''mallory''] ''_updatedBy'' \<noteq> Some (rowyUser ex_utils ex_user)"
  by (simp add: updateFieldAtom_def ex_atoms_def findRow_def ex_local_row_def ex_db_row_def
      truthy_def ex_lodash_def get_prop_def row_obj_def Let_def ex_settings_def isLocalRow_def
      updateAuditField_def or_default_def ex_utils_def ex_user_def ex_online_def
      object_prototype_def)


section \<open>bulkAddRowsAtom: the operations written\<close>

text \<open>
  C6. \<^verbatim>\<open>bulkAddRowsAtom\<close> produces exactly one \<^verbatim>\<open>"add"\<close> operation per provided row, at the
  path made of the collection, \<^verbatim>\<open>"/"\<close> and a freshly generated id, with data equal to the
  column default values and audit fields overridden by the row's fields stripped of
  rowy-internal fields. The operations are written in one bulk write; after it completes,
  when an audit function is configured, exactly one \<^verbatim>\<open>"ADD_ROW"\<close> entry is recorded per
  operation, with that operation's path. The atom throws the first rejection among its
  calls, if any.
\<close>

theorem bulkAddRows_operations:
  assumes "bulkWriteDbAtom a" "tableSettingsAtom a = Some ts" "currentUserAtom a = Some cu"
  shows "\<exists>operations.
     length operations = length rows \<and>
     (\<forall>k < length rows.
        operations ! k =
          \<lparr>op_type = ''add'',
           op_path = collection @ ''/'' @ generateId u k,
           op_data = setAuditFields u ts cu (setDefaultValues (tableColumnsOrderedAtom a) Map.empty)
                       ++ omitRowyFields u (rows ! k)\<rparr>) \<and>
     calls (bulkAddRowsAtom u settles a rows collection onBatchCommit) =
       BulkWriteDb operations onBatchCommit #
         (if settles (BulkWriteDb operations onBatchCommit) = None \<and> auditChangeAtom a
          then map (\<lambda>operation. AuditChange ADD_ROW (op_path operation) None) operations
          else []) \<and>
     thrown (bulkAddRowsAtom u settles a rows collection onBatchCommit) =
       firstRejection (map settles (calls (bulkAddRowsAtom u settles a rows collection onBatchCommit)))"
proof -
  let ?iv = "bulkInitialValues u ts cu (tableColumnsOrderedAtom a)"
  let ?ops = "bulkOperations u ?iv collection rows"
  let ?run = "bulkAddRowsAtom u settles a rows collection onBatchCommit"
  have "length ?ops = length rows"
    by (rule length_bulkOperations)
  moreover have "\<forall>k < length rows.
        ?ops ! k =
          \<lparr>op_type = ''add'',
           op_path = collection @ ''/'' @ generateId u k,
           op_data = setAuditFields u ts cu (setDefaultValues (tableColumnsOrderedAtom a) Map.empty)
                       ++ omitRowyFields u (rows ! k)\<rparr>"
    by (simp add: nth_bulkOperations bulkInitialValues_def)
  moreover have c: "calls ?run =
       BulkWriteDb ?ops onBatchCommit #
         (if settles (BulkWriteDb ?ops onBatchCommit) = None \<and> auditChangeAtom a
          then map (\<lambda>operation. AuditChange ADD_ROW (op_path operation) None) ?ops
          else [])"
    using assms by (simp add: bulkAddRowsAtom_def Let_def calls_def split: option.splits)
  moreover have "thrown ?run = firstRejection (map settles (calls ?run))"
    unfolding c using assms
    by (simp add: bulkAddRowsAtom_def Let_def thrown_def split: option.splits)
  ultimately show ?thesis by blast
qed

theorem bulkAddRows_operations_witness:
  "bulkWriteDbAtom ex_atoms \<and> tableSettingsAtom ex_atoms = Some ex_settings \<and>
   currentUserAtom ex_atoms = Some ex_user \<and>
   (\<exists>op0 op1.
      bulkAddRowsAtom ex_utils ex_online ex_atoms [[''name'' \<mapsto> JStr ''kim''], Map.empty] ''t'' None =
        ([BulkWriteDb [op0, op1] None,
          AuditChange ADD_ROW ''t/id'' None, AuditChange ADD_ROW ''t/idx'' None], None) \<and>
      bulkAddRowsAtom ex_utils ex_offline ex_atoms [[''name'' \<mapsto> JStr ''kim''], Map.empty] ''t'' None =
        ([BulkWriteDb [op0, op1] None], Some (Error ''offline'')) \<and>
      op_type op0 = ''add'' \<and> op_path op0 = ''t/id'' \<and>
      op_data op0 ''name'' = Some (JStr ''kim'') \<and>
      op_data op0 ''status'' = Some (JStr ''new'') \<and>
      op_data op0 ''_createdBy'' = Some (JStr ''ada'') \<and>
      op_type op1 = ''add'' \<and> op_path op1 = ''t/idx'' \<and> op_data op1 ''name'' = None)"
proof -
  let ?rows = "[[''name'' \<mapsto> JStr ''kim''], Map.empty] :: obj list"
  let ?on = "bulkAddRowsAtom ex_utils ex_online ex_atoms ?rows ''t'' None"
  let ?off = "bulkAddRowsAtom ex_utils ex_offline ex_atoms ?rows ''t'' None"
  have h1: "bulkWriteDbAtom ex_atoms"
    and h2: "tableSettingsAtom ex_atoms = Some ex_settings"
    and h3: "currentUserAtom ex_atoms = Some ex_user"
    by (simp_all add: ex_atoms_def)
  have au: "auditChangeAtom ex_atoms"
    by (simp add: ex_atoms_def)
  have iv: "setAuditFields ex_utils ex_settings ex_user
              (setDefaultValues (tableColumnsOrderedAtom ex_atoms) Map.empty) =
            [''status'' \<mapsto> JStr ''new'', ''_createdBy'' \<mapsto> JStr ''ada'',
             ''_updatedBy'' \<mapsto> JStr ''ada'']"
    by (simp add: setAuditFields_def ex_settings_def ex_atoms_def ex_columns_def column_default_def
        or_default_def ex_utils_def ex_user_def Let_def)
  define op0 where "op0 = \<lparr>op_type = ''add'', op_path = ''t/id'',
        op_data = [''status'' \<mapsto> JStr ''new'', ''_createdBy'' \<mapsto> JStr ''ada'',
             ''_updatedBy'' \<mapsto> JStr ''ada''] ++
            omitRowyFields ex_utils [''name'' \<mapsto> JStr ''kim'']\<rparr>"
  define op1 where "op1 = \<lparr>op_type = ''add'', op_path = ''t/idx'',
        op_data = [''status'' \<mapsto> JStr ''new'', ''_createdBy'' \<mapsto> JStr ''ada'',
             ''_updatedBy'' \<mapsto> JStr ''ada''] ++ omitRowyFields ex_utils Map.empty\<rparr>"
  have ops: "operations = [op0, op1]"
    if len: "length operations = length ?rows"
      and nth: "\<forall>k < length ?rows. operations ! k =
          \<lparr>op_type = ''add'',
           op_path = ''t'' @ ''/'' @ generateId ex_utils k,
           op_data = setAuditFields ex_utils ex_settings ex_user
                       (setDefaultValues (tableColumnsOrderedAtom ex_atoms) Map.empty)
                       ++ omitRowyFields ex_utils (?rows ! k)\<rparr>"
    for operations
  proof -
    from len obtain x y where xy: "operations = [x, y]"
      by (cases operations; cases "tl operations") auto
    from nth[THEN spec, of 0] have "x = op0"
      unfolding xy iv op0_def by (simp add: ex_utils_def)
    moreover from nth[THEN spec, of "Suc 0"] have "y = op1"
      unfolding xy iv op1_def by (simp add: ex_utils_def)
    ultimately show ?thesis using xy by simp
  qed
  from bulkAddRows_operations [OF h1 h2 h3, where rows = ?rows and collection = "''t''"
      and u = ex_utils and settles = ex_online and onBatchCommit = None]
  obtain xs where xs: "length xs = length ?rows"
      "\<forall>k < length ?rows. xs ! k =
          \<lparr>op_type = ''add'',
           op_path = ''t'' @ ''/'' @ generateId ex_utils k,
           op_data = setAuditFields ex_utils ex_settings ex_user
                       (setDefaultValues (tableColumnsOrderedAtom ex_atoms) Map.empty)
                       ++ omitRowyFields ex_utils (?rows ! k)\<rparr>"
      "calls ?on = BulkWriteDb xs None #
         (if ex_online (BulkWriteDb xs None) = None \<and> auditChangeAtom ex_atoms
          then map (\<lambda>operation. AuditChange ADD_ROW (op_path operation) None) xs
          else [])"
      "thrown ?on = firstRejection (map ex_online (calls ?on))"
    by blast
  have xs_eq: "xs = [op0, op1]"
    by (rule ops[OF xs(1) xs(2)])
  have on_calls: "calls ?on = [BulkWriteDb [op0, op1] None,
          AuditChange ADD_ROW ''t/id'' None, AuditChange ADD_ROW ''t/idx'' None]"
    using xs(3) au unfolding xs_eq by (simp add: ex_online_def op0_def op1_def)
  have on_thrown: "thrown ?on = None"
    using xs(4) unfolding on_calls by (simp add: ex_online_def)
  from bulkAddRows_operations [OF h1 h2 h3, where rows = ?rows and collection = "''t''"
      and u = ex_utils and settles = ex_offline and onBatchCommit = None]
  obtain ys where ys: "length ys = length ?rows"
      "\<forall>k < length ?rows. ys ! k =
          \<lparr>op_type = ''add'',
           op_path = ''t'' @ ''/'' @ generateId ex_utils k,
           op_data = setAuditFields ex_utils ex_settings ex_user
                       (setDefaultValues (tableColumnsOrderedAtom ex_atoms) Map.empty)
                       ++ omitRowyFields ex_utils (?rows ! k)\<rparr>"
      "calls ?off = BulkWriteDb ys None #
         (if ex_offline (BulkWriteDb ys None) = None \<and> auditChangeAtom ex_atoms
          then map (\<lambda>operation. AuditChange ADD_ROW (op_path operation) None) ys
          else [])"
      "thrown ?off = firstRejection (map ex_offline (calls ?off))"
    by blast
  have ys_eq: "ys = [op0, op1]"
    by (rule ops[OF ys(1) ys(2)])
  have off_calls: "calls ?off = [BulkWriteDb [op0, op1] None]"
    using ys(3) unfolding ys_eq by (simp add: ex_offline_def is_db_def)
  have off_thrown: "thrown ?off = Some (Error ''offline'')"
    using ys(4) unfolding off_calls by (simp add: ex_offline_def is_db_def)
  have "?on = ([BulkWriteDb [op0, op1] None,
          AuditChange ADD_ROW ''t/id'' None, AuditChange ADD_ROW ''t/idx'' None], None)"
    using on_calls on_thrown by (simp add: calls_def thrown_def prod_eq_iff)
  moreover have "?off = ([BulkWriteDb [op0, op1] None], Some (Error ''offline''))"
    using off_calls off_thrown by (simp add: calls_def thrown_def prod_eq_iff)
  moreover have "op_data op0 ''name'' = Some (JStr ''kim'')"
    "op_data op0 ''status'' = Some (JStr ''new'')"
    "op_data op0 ''_createdBy'' = Some (JStr ''ada'')"
    "op_data op1 ''name'' = None"
    by (simp_all add: op0_def op1_def ex_utils_def map_add_def)
  moreover have "op_type op0 = ''add''" "op_path op0 = ''t/id''" "op_type op1 = ''add''"
    "op_path op1 = ''t/idx''"
    by (simp_all add: op0_def op1_def)
  ultimately show ?thesis
    using h1 h2 h3 by blast
qed

section \<open>Array arguments\<close>

text \<open>
  C7. With an array of paths \<^verbatim>\<open>deleteRowAtom\<close> makes the calls that the single-path
  delete-and-audit procedure makes for each element: the same calls with the same
  multiplicities, the local dispatches and the database calls in the order of the
  elements; it throws the first rejection among the elements. With an array of rows
  \<^verbatim>\<open>addRowAtom\<close> does the same with the single-row add-and-audit procedure, applied to the
  rows with their ids assigned; the id of a row depends on the rows before it only with
  \<^verbatim>\<open>setId: "decrement"\<close>, where it is the decrement of the id given to the previous row,
  starting from the id of the first database row. A single row is treated as an array of
  one row.
\<close>

theorem array_fan_out:
  "(deleteRowDbAtom a \<longrightarrow>
      (\<exists>trace rejected. deleteRowAtom settles a (Paths ps) = (trace, rejected) \<and>
         mset trace = mset (concat (map (\<lambda>p. calls (deleteRowAtom settles a (Path p))) ps)) \<and>
         filter is_local trace
           = filter is_local (concat (map (\<lambda>p. calls (deleteRowAtom settles a (Path p))) ps)) \<and>
         filter is_db trace
           = filter is_db (concat (map (\<lambda>p. calls (deleteRowAtom settles a (Path p))) ps)) \<and>
         rejected
           = firstRejection (map (\<lambda>p. thrown (deleteRowAtom settles a (Path p))) ps))) \<and>
   (updateRowDbAtom a \<and> tableSettingsAtom a = Some ts \<and> currentUserAtom a = Some cu \<longrightarrow>
      (\<exists>trace rejected singles.
         addRowAtom u settles a (Rows rs) ignoreRequiredFields setId = (trace, rejected) \<and>
         singles =
           map (\<lambda>r. awaited (addSingleRowAndAudit u settles ts cu (auditChangeAtom a)
                                (tableFiltersAtom a) (tableColumnsOrderedAtom a)
                                ignoreRequiredFields setId r))
               (rowsToAdd u a setId (Rows rs)) \<and>
         mset trace = mset (concat (map calls singles)) \<and>
         filter is_local trace = filter is_local (concat (map calls singles)) \<and>
         filter is_db trace = filter is_db (concat (map calls singles)) \<and>
         rejected = firstRejection (map thrown singles)) \<and>
      addRowAtom u settles a (Row r) ignoreRequiredFields setId
        = addRowAtom u settles a (Rows [r]) ignoreRequiredFields setId) \<and>
   length (rowsToAdd u a setId (Rows rs)) = length rs \<and>
   (\<forall>k < length rs.
      rowsToAdd u a setId (Rows rs) ! k =
        withId setId
          (newId u setId
             (if k = 0 then firstDbId (tableRowsDbAtom a)
              else Some (ref_id (rowy_ref (rowsToAdd u a setId (Rows rs) ! (k - 1)))))
             k (rs ! k))
          (rs ! k)) \<and>
   (setId = Some Decrement \<longrightarrow>
      (\<forall>k < length rs.
         ref_id (rowy_ref (rowsToAdd u a setId (Rows rs) ! k)) =
           decrementId u
             (if k = 0 then firstDbId (tableRowsDbAtom a)
              else Some (ref_id (rowy_ref (rowsToAdd u a setId (Rows rs) ! (k - 1)))))))"
proof -
  let ?rows = "rowsToAdd u a setId (Rows rs)"
  have rows: "?rows = assignIds u setId (firstDbId (tableRowsDbAtom a)) 0 rs"
    by (simp add: rowsToAdd_def)
  have len: "length ?rows = length rs"
    unfolding rows by (rule length_assignIds)
  have chain: "\<forall>k < length rs.
      ?rows ! k =
        withId setId
          (newId u setId
             (if k = 0 then firstDbId (tableRowsDbAtom a)
              else Some (ref_id (rowy_ref (?rows ! (k - 1)))))
             k (rs ! k))
          (rs ! k)"
    unfolding rows
    using nth_assignIds[of _ rs u setId "firstDbId (tableRowsDbAtom a)" 0] by simp
  have dec: "setId = Some Decrement \<longrightarrow>
      (\<forall>k < length rs.
         ref_id (rowy_ref (?rows ! k)) =
           decrementId u
             (if k = 0 then firstDbId (tableRowsDbAtom a)
              else Some (ref_id (rowy_ref (?rows ! (k - 1))))))"
  proof (intro impI allI)
    fix k assume s: "setId = Some Decrement" and k: "k < length rs"
    from chain k have "ref_id (rowy_ref (?rows ! k)) =
        ref_id (rowy_ref (withId setId
          (newId u setId
             (if k = 0 then firstDbId (tableRowsDbAtom a)
              else Some (ref_id (rowy_ref (?rows ! (k - 1)))))
             k (rs ! k))
          (rs ! k)))"
      by simp
    also have "\<dots> = decrementId u
             (if k = 0 then firstDbId (tableRowsDbAtom a)
              else Some (ref_id (rowy_ref (?rows ! (k - 1)))))"
      unfolding ref_id_withId_newId by (simp add: newId_def s)
    finally show "ref_id (rowy_ref (?rows ! k)) =
           decrementId u
             (if k = 0 then firstDbId (tableRowsDbAtom a)
              else Some (ref_id (rowy_ref (?rows ! (k - 1)))))" .
  qed
  have del: "\<exists>trace rejected. deleteRowAtom settles a (Paths ps) = (trace, rejected) \<and>
         mset trace = mset (concat (map (\<lambda>p. calls (deleteRowAtom settles a (Path p))) ps)) \<and>
         filter is_local trace
           = filter is_local (concat (map (\<lambda>p. calls (deleteRowAtom settles a (Path p))) ps)) \<and>
         filter is_db trace
           = filter is_db (concat (map (\<lambda>p. calls (deleteRowAtom settles a (Path p))) ps)) \<and>
         rejected
           = firstRejection (map (\<lambda>p. thrown (deleteRowAtom settles a (Path p))) ps)"
    if d: "deleteRowDbAtom a"
  proof -
    let ?single = "deleteSingleRowAndAudit settles (auditChangeAtom a) (tableRowsLocalAtom a)"
    have t: "deleteRowAtom settles a (Paths ps) = fanOut ?single ps"
      using deleteRowAtom_run[OF d, of settles "Paths ps"] by (simp add: providedPaths_def)
    have one: "deleteRowAtom settles a (Path p) = awaited (?single p)" for p
      using deleteRowAtom_run[OF d, of settles "Path p"]
      by (simp add: providedPaths_def fanOut_single)
    have "mset (calls (fanOut ?single ps))
        = mset (concat (map (\<lambda>p. calls (awaited (?single p))) ps))"
      by (rule mset_two_phases)
    moreover have "filter is_local (calls (fanOut ?single ps))
        = filter is_local (concat (map (\<lambda>p. calls (awaited (?single p))) ps))"
      by (simp only: filter_two_phases[where P = is_local, OF delete_single_local(2)]
          filter_singles[where P = is_local, OF delete_single_local(2)])
    moreover have "filter is_db (calls (fanOut ?single ps))
        = filter is_db (concat (map (\<lambda>p. calls (awaited (?single p))) ps))"
      by (simp only: filter_two_phases[where P = is_db, OF delete_single_db(2)]
          filter_singles[where P = is_db, OF delete_single_db(2)])
    moreover have "thrown (fanOut ?single ps)
        = firstRejection (map (\<lambda>p. thrown (awaited (?single p))) ps)"
      by (rule thrown_two_phases)
    moreover have "fanOut ?single ps = (calls (fanOut ?single ps), thrown (fanOut ?single ps))"
      by (simp add: calls_def thrown_def)
    ultimately show ?thesis
      unfolding t one by blast
  qed
  have add: "\<exists>trace rejected singles.
         addRowAtom u settles a (Rows rs) ignoreRequiredFields setId = (trace, rejected) \<and>
         singles =
           map (\<lambda>r. awaited (addSingleRowAndAudit u settles ts cu (auditChangeAtom a)
                                (tableFiltersAtom a) (tableColumnsOrderedAtom a)
                                ignoreRequiredFields setId r))
               ?rows \<and>
         mset trace = mset (concat (map calls singles)) \<and>
         filter is_local trace = filter is_local (concat (map calls singles)) \<and>
         filter is_db trace = filter is_db (concat (map calls singles)) \<and>
         rejected = firstRejection (map thrown singles)"
    and one: "addRowAtom u settles a (Row r) ignoreRequiredFields setId
        = addRowAtom u settles a (Rows [r]) ignoreRequiredFields setId"
    if p: "updateRowDbAtom a \<and> tableSettingsAtom a = Some ts \<and> currentUserAtom a = Some cu"
  proof -
    from p have pre: "updateRowDbAtom a" "tableSettingsAtom a = Some ts"
        "currentUserAtom a = Some cu"
      by simp_all
    let ?single = "addSingleRowAndAudit u settles ts cu (auditChangeAtom a) (tableFiltersAtom a)
                     (tableColumnsOrderedAtom a) ignoreRequiredFields setId"
    let ?run = "fanOut ?single ?rows"
    have t: "addRowAtom u settles a (Rows rs) ignoreRequiredFields setId = ?run"
      by (rule addRowAtom_run[OF pre])
    have s: "map calls (map (\<lambda>r. awaited (?single r)) ?rows)
        = map (\<lambda>r. calls (awaited (?single r))) ?rows"
      "map thrown (map (\<lambda>r. awaited (?single r)) ?rows)
        = map (\<lambda>r. thrown (awaited (?single r))) ?rows"
      by simp_all
    have m: "mset (calls ?run) = mset (concat (map (\<lambda>r. calls (awaited (?single r))) ?rows))"
      by (rule mset_two_phases)
    have l: "filter is_local (calls ?run)
        = filter is_local (concat (map (\<lambda>r. calls (awaited (?single r))) ?rows))"
      by (simp only: filter_two_phases[where P = is_local, OF single_local(2)]
          filter_singles[where P = is_local, OF single_local(2)])
    have d: "filter is_db (calls ?run)
        = filter is_db (concat (map (\<lambda>r. calls (awaited (?single r))) ?rows))"
      by (simp only: filter_two_phases[where P = is_db, OF single_db(2)]
          filter_singles[where P = is_db, OF single_db(2)])
    have th: "thrown ?run = firstRejection (map (\<lambda>r. thrown (awaited (?single r))) ?rows)"
      by (rule thrown_two_phases)
    have pair: "?run = (calls ?run, thrown ?run)"
      by (simp add: calls_def thrown_def)
    from pair m l d th show "\<exists>trace rejected singles.
         addRowAtom u settles a (Rows rs) ignoreRequiredFields setId = (trace, rejected) \<and>
         singles =
           map (\<lambda>r. awaited (addSingleRowAndAudit u settles ts cu (auditChangeAtom a)
                                (tableFiltersAtom a) (tableColumnsOrderedAtom a)
                                ignoreRequiredFields setId r))
               ?rows \<and>
         mset trace = mset (concat (map calls singles)) \<and>
         filter is_local trace = filter is_local (concat (map calls singles)) \<and>
         filter is_db trace = filter is_db (concat (map calls singles)) \<and>
         rejected = firstRejection (map thrown singles)"
      unfolding t s[symmetric] by blast
    show "addRowAtom u settles a (Row r) ignoreRequiredFields setId
        = addRowAtom u settles a (Rows [r]) ignoreRequiredFields setId"
      using pre by (simp add: addRowAtom_def Let_def fanOut_single)
  qed
  from del add one len chain dec show ?thesis
    by blast
qed

theorem array_fan_out_witness:
  "deleteRowDbAtom ex_atoms \<and>
   (\<exists>trace. deleteRowAtom ex_offline ex_atoms (Paths [''t/r5'', ''t/r1''])
        = (trace, Some (Error ''offline'')) \<and>
      mset trace =
        {#DeleteRowDb ''t/r5'',
          SetRowsLocal (LocalDelete ''t/r1''), AuditChange DELETE_ROW ''t/r1'' None#} \<and>
      filter is_local trace = [SetRowsLocal (LocalDelete ''t/r1'')] \<and>
      filter is_db trace = [DeleteRowDb ''t/r5'']) \<and>
   (\<exists>trace. deleteRowAtom ex_online ex_atoms (Paths [''t/r5'', ''t/r1'']) = (trace, None) \<and>
      mset trace =
        {#DeleteRowDb ''t/r5'', AuditChange DELETE_ROW ''t/r5'' None,
          SetRowsLocal (LocalDelete ''t/r1''), AuditChange DELETE_ROW ''t/r1'' None#} \<and>
      filter is_local trace = [SetRowsLocal (LocalDelete ''t/r1'')] \<and>
      filter is_db trace = [DeleteRowDb ''t/r5'']) \<and>
   updateRowDbAtom ex_atoms \<and> tableSettingsAtom ex_atoms = Some ex_settings \<and>
   currentUserAtom ex_atoms = Some ex_user \<and>
   (\<exists>trace.
      addRowAtom ex_utils ex_online ex_atoms (Rows [ex_named_row, ex_unnamed_row]) None
          (Some Decrement)
        = (trace, None) \<and>
      filter is_db trace =
        [UpdateRowDb ''t/r5-''
           [''score'' \<mapsto> JNum 7, ''status'' \<mapsto> JStr ''new'', ''_createdBy'' \<mapsto> JStr ''ada'',
            ''_updatedBy'' \<mapsto> JStr ''ada'', ''name'' \<mapsto> JStr ''bob'']
           None] \<and>
      mset (filter is_audit trace) =
        {#AuditChange ADD_ROW ''t/r5-'' None, AuditChange ADD_ROW ''t/r5--'' None#} \<and>
      length (filter is_local trace) = 1) \<and>
   map (\<lambda>r. ref_id (rowy_ref r))
     (rowsToAdd ex_utils ex_atoms (Some Decrement) (Rows [ex_named_row, ex_unnamed_row]))
     = [''r5-'', ''r5--'']"
proof -
  let ?rows = "rowsToAdd ex_utils ex_atoms (Some Decrement) (Rows [ex_named_row, ex_unnamed_row])"
  have h: "deleteRowDbAtom ex_atoms" "updateRowDbAtom ex_atoms"
    "tableSettingsAtom ex_atoms = Some ex_settings" "currentUserAtom ex_atoms = Some ex_user"
    by (simp_all add: ex_atoms_def)
  note fan = array_fan_out [where a = ex_atoms and ps = "[''t/r5'', ''t/r1'']" and ts = ex_settings
      and cu = ex_user and u = ex_utils and rs = "[ex_named_row, ex_unnamed_row]"
      and ignoreRequiredFields = None and setId = "Some Decrement" and r = ex_named_row]
  have off5: "deleteRowAtom ex_offline ex_atoms (Path ''t/r5'')
      = ([DeleteRowDb ''t/r5''], Some (Error ''offline''))"
    and off1: "deleteRowAtom ex_offline ex_atoms (Path ''t/r1'')
      = ([SetRowsLocal (LocalDelete ''t/r1''), AuditChange DELETE_ROW ''t/r1'' None], None)"
    and on5: "deleteRowAtom ex_online ex_atoms (Path ''t/r5'')
      = ([DeleteRowDb ''t/r5'', AuditChange DELETE_ROW ''t/r5'' None], None)"
    and on1: "deleteRowAtom ex_online ex_atoms (Path ''t/r1'')
      = ([SetRowsLocal (LocalDelete ''t/r1''), AuditChange DELETE_ROW ''t/r1'' None], None)"
    by (simp_all add: deleteRowAtom_def deleteSingleRowAndAudit_def isLocalRow_def
        findRow_def ex_atoms_def ex_local_row_def Let_def awaited_def ex_offline_def
        ex_online_def is_db_def)
  from fan[where settles = ex_offline, THEN conjunct1] h(1)
  have del_off: "\<exists>trace. deleteRowAtom ex_offline ex_atoms (Paths [''t/r5'', ''t/r1''])
        = (trace, Some (Error ''offline'')) \<and>
      mset trace =
        {#DeleteRowDb ''t/r5'',
          SetRowsLocal (LocalDelete ''t/r1''), AuditChange DELETE_ROW ''t/r1'' None#} \<and>
      filter is_local trace = [SetRowsLocal (LocalDelete ''t/r1'')] \<and>
      filter is_db trace = [DeleteRowDb ''t/r5'']"
    by (simp add: off5 off1 calls_def thrown_def is_local_def is_db_def)
  from fan[where settles = ex_online, THEN conjunct1] h(1)
  have del_on: "\<exists>trace. deleteRowAtom ex_online ex_atoms (Paths [''t/r5'', ''t/r1''])
        = (trace, None) \<and>
      mset trace =
        {#DeleteRowDb ''t/r5'', AuditChange DELETE_ROW ''t/r5'' None,
          SetRowsLocal (LocalDelete ''t/r1''), AuditChange DELETE_ROW ''t/r1'' None#} \<and>
      filter is_local trace = [SetRowsLocal (LocalDelete ''t/r1'')] \<and>
      filter is_db trace = [DeleteRowDb ''t/r5'']"
    by (simp add: on5 on1 calls_def thrown_def is_local_def is_db_def)
  have atoms: "auditChangeAtom ex_atoms = True"
    "tableFiltersAtom ex_atoms = [ex_filter_gt, ex_filter_eq]"
    "tableColumnsOrderedAtom ex_atoms = ex_columns"
    by (simp_all add: ex_atoms_def)
  have rows: "?rows =
      [ex_named_row\<lparr>rowy_ref := \<lparr>ref_id = ''r5-'', ref_path = ''t/r5-''\<rparr>\<rparr>,
       ex_unnamed_row\<lparr>rowy_ref := \<lparr>ref_id = ''r5--'', ref_path = ''t/r5--''\<rparr>\<rparr>]"
    by (simp add: rowsToAdd_def ex_atoms_def ex_utils_def newId_def withId_def firstDbId_def
        parent_path_def split_slash_def ex_named_row_def ex_unnamed_row_def ex_db_row_def Let_def)
  have written: "omitRowyFields ex_utils
      (addInitialValues ex_utils ex_settings ex_user [ex_filter_gt, ex_filter_eq] ex_columns
         (ex_named_row\<lparr>rowy_ref := \<lparr>ref_id = ''r5-'', ref_path = ''t/r5-''\<rparr>\<rparr>)
       ++ row_obj (ex_named_row\<lparr>rowy_ref := \<lparr>ref_id = ''r5-'', ref_path = ''t/r5-''\<rparr>\<rparr>))
      = [''score'' \<mapsto> JNum 7, ''status'' \<mapsto> JStr ''new'', ''_createdBy'' \<mapsto> JStr ''ada'',
         ''_updatedBy'' \<mapsto> JStr ''ada'', ''name'' \<mapsto> JStr ''bob'']"
    by (rule ext)
       (simp add: ex_utils_def addInitialValues_def setAuditFields_def ex_settings_def
          or_default_def ex_columns_def column_default_def ex_filter_gt_def
          ex_filter_eq_def ex_user_def row_obj_def ex_named_row_def map_add_def Let_def)
  have missing: "missingRequiredFields None ex_columns
        (ex_named_row\<lparr>rowy_ref := \<lparr>ref_id = ''r5-'', ref_path = ''t/r5-''\<rparr>\<rparr>) = []"
    "missingRequiredFields None ex_columns
        (ex_unnamed_row\<lparr>rowy_ref := \<lparr>ref_id = ''r5--'', ref_path = ''t/r5--''\<rparr>\<rparr>) \<noteq> []"
    by (simp_all add: missing_nil_iff ex_columns_def column_required_def truthy_def get_prop_def
        row_obj_def ex_named_row_def ex_unnamed_row_def object_prototype_def)
  have inOrder: "\<not> unassignedFilterKey [ex_filter_gt, ex_filter_eq]"
    "get_prop (row_obj (ex_named_row\<lparr>rowy_ref := \<lparr>ref_id = ''r5-'', ref_path = ''t/r5-''\<rparr>\<rparr>))
       ''_rowy_outOfOrder'' \<noteq> JBool True"
    by (simp_all add: unassignedFilterKey_def assignable_def ex_filter_gt_def ex_filter_eq_def
        get_prop_def row_obj_def ex_named_row_def object_prototype_def)
  have single0: "filter is_db (calls (awaited (addSingleRowAndAudit ex_utils ex_online ex_settings
        ex_user True [ex_filter_gt, ex_filter_eq] ex_columns None (Some Decrement)
        (ex_named_row\<lparr>rowy_ref := \<lparr>ref_id = ''r5-'', ref_path = ''t/r5-''\<rparr>\<rparr>))))
      = [UpdateRowDb ''t/r5-''
           [''score'' \<mapsto> JNum 7, ''status'' \<mapsto> JStr ''new'', ''_createdBy'' \<mapsto> JStr ''ada'',
            ''_updatedBy'' \<mapsto> JStr ''ada'', ''name'' \<mapsto> JStr ''bob'']
           None]"
    "filter is_audit (calls (awaited (addSingleRowAndAudit ex_utils ex_online ex_settings
        ex_user True [ex_filter_gt, ex_filter_eq] ex_columns None (Some Decrement)
        (ex_named_row\<lparr>rowy_ref := \<lparr>ref_id = ''r5-'', ref_path = ''t/r5-''\<rparr>\<rparr>))))
      = [AuditChange ADD_ROW ''t/r5-'' None]"
    "filter is_local (calls (awaited (addSingleRowAndAudit ex_utils ex_online ex_settings
        ex_user True [ex_filter_gt, ex_filter_eq] ex_columns None (Some Decrement)
        (ex_named_row\<lparr>rowy_ref := \<lparr>ref_id = ''r5-'', ref_path = ''t/r5-''\<rparr>\<rparr>))))
      = []"
    "thrown (awaited (addSingleRowAndAudit ex_utils ex_online ex_settings
        ex_user True [ex_filter_gt, ex_filter_eq] ex_columns None (Some Decrement)
        (ex_named_row\<lparr>rowy_ref := \<lparr>ref_id = ''r5-'', ref_path = ''t/r5-''\<rparr>\<rparr>)))
      = None"
    unfolding calls_awaited thrown_awaited
    by (simp_all add: addSingleRowAndAudit_def Let_def missing written is_db_def is_audit_def
        is_local_def ex_online_def outOfOrderFilters_empty inOrder)
  have single1: "filter is_db (calls (awaited (addSingleRowAndAudit ex_utils ex_online ex_settings
        ex_user True [ex_filter_gt, ex_filter_eq] ex_columns None (Some Decrement)
        (ex_unnamed_row\<lparr>rowy_ref := \<lparr>ref_id = ''r5--'', ref_path = ''t/r5--''\<rparr>\<rparr>))))
      = []"
    "filter is_audit (calls (awaited (addSingleRowAndAudit ex_utils ex_online ex_settings
        ex_user True [ex_filter_gt, ex_filter_eq] ex_columns None (Some Decrement)
        (ex_unnamed_row\<lparr>rowy_ref := \<lparr>ref_id = ''r5--'', ref_path = ''t/r5--''\<rparr>\<rparr>))))
      = [AuditChange ADD_ROW ''t/r5--'' None]"
    "length (filter is_local (calls (awaited (addSingleRowAndAudit ex_utils ex_online ex_settings
        ex_user True [ex_filter_gt, ex_filter_eq] ex_columns None (Some Decrement)
        (ex_unnamed_row\<lparr>rowy_ref := \<lparr>ref_id = ''r5--'', ref_path = ''t/r5--''\<rparr>\<rparr>)))))
      = 1"
    "thrown (awaited (addSingleRowAndAudit ex_utils ex_online ex_settings
        ex_user True [ex_filter_gt, ex_filter_eq] ex_columns None (Some Decrement)
        (ex_unnamed_row\<lparr>rowy_ref := \<lparr>ref_id = ''r5--'', ref_path = ''t/r5--''\<rparr>\<rparr>)))
      = None"
    unfolding calls_awaited thrown_awaited
    by (simp_all add: addSingleRowAndAudit_def Let_def missing is_db_def is_audit_def
        is_local_def)
  from fan[where settles = ex_online, THEN conjunct2, THEN conjunct1] h
  obtain trace rejected where run:
      "addRowAtom ex_utils ex_online ex_atoms (Rows [ex_named_row, ex_unnamed_row]) None
          (Some Decrement) = (trace, rejected)"
      "mset trace =
        mset (concat (map (\<lambda>r. calls (awaited (addSingleRowAndAudit ex_utils ex_online ex_settings
                                  ex_user True [ex_filter_gt, ex_filter_eq] ex_columns None
                                  (Some Decrement) r)))
                ?rows))"
      "filter is_local trace =
        filter is_local (concat (map (\<lambda>r. calls (awaited (addSingleRowAndAudit ex_utils ex_online
                                  ex_settings ex_user True [ex_filter_gt, ex_filter_eq] ex_columns
                                  None (Some Decrement) r)))
                ?rows))"
      "filter is_db trace =
        filter is_db (concat (map (\<lambda>r. calls (awaited (addSingleRowAndAudit ex_utils ex_online
                                  ex_settings ex_user True [ex_filter_gt, ex_filter_eq] ex_columns
                                  None (Some Decrement) r)))
                ?rows))"
      "rejected =
        firstRejection (map (\<lambda>r. thrown (awaited (addSingleRowAndAudit ex_utils ex_online
                                  ex_settings ex_user True [ex_filter_gt, ex_filter_eq] ex_columns
                                  None (Some Decrement) r)))
                ?rows)"
    unfolding atoms by (simp add: comp_def) blast
  have "rejected = None"
    unfolding run(5) rows by (simp add: single0 single1)
  moreover have "filter is_db trace =
        [UpdateRowDb ''t/r5-''
           [''score'' \<mapsto> JNum 7, ''status'' \<mapsto> JStr ''new'', ''_createdBy'' \<mapsto> JStr ''ada'',
            ''_updatedBy'' \<mapsto> JStr ''ada'', ''name'' \<mapsto> JStr ''bob'']
           None]"
    unfolding run(4) rows by (simp add: single0 single1)
  moreover have "length (filter is_local trace) = 1"
    unfolding run(3) rows by (simp add: single0 single1)
  moreover have "mset (filter is_audit trace) =
        {#AuditChange ADD_ROW ''t/r5-'' None, AuditChange ADD_ROW ''t/r5--'' None#}"
    unfolding mset_filter run(2) rows
    by (simp add: single0 single1 flip: mset_filter)
  ultimately have add: "\<exists>trace.
      addRowAtom ex_utils ex_online ex_atoms (Rows [ex_named_row, ex_unnamed_row]) None
          (Some Decrement)
        = (trace, None) \<and>
      filter is_db trace =
        [UpdateRowDb ''t/r5-''
           [''score'' \<mapsto> JNum 7, ''status'' \<mapsto> JStr ''new'', ''_createdBy'' \<mapsto> JStr ''ada'',
            ''_updatedBy'' \<mapsto> JStr ''ada'', ''name'' \<mapsto> JStr ''bob'']
           None] \<and>
      mset (filter is_audit trace) =
        {#AuditChange ADD_ROW ''t/r5-'' None, AuditChange ADD_ROW ''t/r5--'' None#} \<and>
      length (filter is_local trace) = 1"
    using run(1) by blast
  from fan[where settles = ex_online, THEN conjunct2, THEN conjunct2, THEN conjunct1]
  have len: "length ?rows = 2"
    by simp
  from fan[where settles = ex_online, THEN conjunct2, THEN conjunct2, THEN conjunct2,
      THEN conjunct2]
  have dec: "\<forall>k < length [ex_named_row, ex_unnamed_row].
         ref_id (rowy_ref (?rows ! k)) =
           decrementId ex_utils
             (if k = 0 then firstDbId (tableRowsDbAtom ex_atoms)
              else Some (ref_id (rowy_ref (?rows ! (k - 1)))))"
    by blast
  from dec[THEN spec, of 0] have id0: "ref_id (rowy_ref (?rows ! 0)) = ''r5-''"
    by (simp add: firstDbId_def ex_atoms_def ex_db_row_def ex_utils_def)
  from dec[THEN spec, of "Suc 0"] id0 have id1: "ref_id (rowy_ref (?rows ! Suc 0)) = ''r5--''"
    by (simp add: ex_utils_def)
  from len obtain r0 r1 where two: "?rows = [r0, r1]"
    by (cases ?rows; cases "tl ?rows") auto
  from id0 id1 have ids: "map (\<lambda>r. ref_id (rowy_ref r)) ?rows = [''r5-'', ''r5--'']"
    unfolding two by simp
  from del_off del_on add ids h show ?thesis by blast
qed

section \<open>updateFieldAtom: an update to an equal value\<close>

text \<open>
  C8. When \<^verbatim>\<open>updateFieldAtom\<close> is called with neither \<^verbatim>\<open>deleteField\<close> nor
  \<^verbatim>\<open>disableCheckEquality\<close> set, and the given value is deeply equal to the current value
  of the row at \<^verbatim>\<open>fieldName\<close>, the call makes no call at all: the local rows, the database
  and the audit log are untouched. With its preconditions met it returns normally.
\<close>

theorem updateField_equal_value_no_effect:
  assumes "findRow (tableRowsAtom a) path = Some row"
    and "\<not> truthy deleteField" "\<not> truthy disableCheckEquality"
    and "isEqual lo (lodash_get lo (row_obj row) fieldName) v"
  shows "calls (updateFieldAtom u lo settles a path fieldName v deleteField ignoreRequiredFields
                  disableCheckEquality) = [] \<and>
         (updateRowDbAtom a \<and> tableSettingsAtom a \<noteq> None \<and> currentUserAtom a \<noteq> None \<longrightarrow>
            updateFieldAtom u lo settles a path fieldName v deleteField ignoreRequiredFields
              disableCheckEquality = ([], None))"
proof (cases "updateRowDbAtom a \<and> tableSettingsAtom a \<noteq> None \<and> currentUserAtom a \<noteq> None")
  case True
  then obtain ts cu where "updateRowDbAtom a" "tableSettingsAtom a = Some ts"
      "currentUserAtom a = Some cu"
    by auto
  with assms have "updateFieldAtom u lo settles a path fieldName v deleteField
      ignoreRequiredFields disableCheckEquality = ([], None)"
    by (simp add: updateFieldAtom_def Let_def)
  then show ?thesis by (simp add: calls_def)
next
  case False
  then have "\<exists>e. updateFieldAtom u lo settles a path fieldName v deleteField
      ignoreRequiredFields disableCheckEquality = ([], Some e)"
    by (cases "updateRowDbAtom a"; cases "tableSettingsAtom a"; cases "currentUserAtom a";
        simp add: updateFieldAtom_def)
  with False show ?thesis by (auto simp: calls_def)
qed

theorem updateField_equal_value_no_effect_witness:
  "findRow (tableRowsAtom ex_atoms) ''t/r5'' = Some ex_db_row \<and>
   \<not> truthy None \<and>
   isEqual ex_lodash (lodash_get ex_lodash (row_obj ex_db_row) ''name'') (JStr ''eve'') \<and>
   updateRowDbAtom ex_atoms \<and> tableSettingsAtom ex_atoms \<noteq> None \<and>
   currentUserAtom ex_atoms \<noteq> None \<and>
   calls (updateFieldAtom ex_utils ex_lodash ex_offline ex_atoms ''t/r5'' ''name'' (JStr ''eve'')
            None None None) = [] \<and>
   updateFieldAtom ex_utils ex_lodash ex_offline ex_atoms ''t/r5'' ''name'' (JStr ''eve'')
     None None None = ([], None)"
proof -
  have h: "findRow (tableRowsAtom ex_atoms) ''t/r5'' = Some ex_db_row"
    "\<not> truthy None" "\<not> truthy None"
    "isEqual ex_lodash (lodash_get ex_lodash (row_obj ex_db_row) ''name'') (JStr ''eve'')"
    by (simp_all add: ex_atoms_def findRow_def ex_local_row_def ex_db_row_def truthy_def
        ex_lodash_def get_prop_def row_obj_def)
  have pre: "updateRowDbAtom ex_atoms" "tableSettingsAtom ex_atoms \<noteq> None"
    "currentUserAtom ex_atoms \<noteq> None"
    by (simp_all add: ex_atoms_def)
  from updateField_equal_value_no_effect [OF h, where u = ex_utils and settles = ex_offline
      and ignoreRequiredFields = None] h pre
  show ?thesis by blast
qed

section \<open>Precondition failures\<close>

text \<open>
  C9, amended. \<^verbatim>\<open>addRowAtom\<close>, \<^verbatim>\<open>bulkAddRowsAtom\<close> and \<^verbatim>\<open>updateFieldAtom\<close> throw, and make no
  local dispatch, no database call and no audit call, when the database function they
  need, the table settings or the current user are unset; the error is the one of the
  first failing read, in this order. \<^verbatim>\<open>deleteRowAtom\<close> reads neither the table settings nor
  the current user: it throws \<^verbatim>\<open>"Cannot write to database"\<close>, without any call, when the
  delete function is unset; with the delete function set it throws only the rejection of
  a database delete it made, and what it does never depends on the table settings or the
  current user. \<^verbatim>\<open>updateFieldAtom\<close> moreover throws \<^verbatim>\<open>"Could not find row"\<close>, again without
  any call, when no row of the table has the given path.
\<close>

theorem mutation_precondition_errors:
  "(\<not> updateRowDbAtom a \<or> tableSettingsAtom a = None \<or> currentUserAtom a = None \<longrightarrow>
      addRowAtom u settles a row ignoreRequiredFields setId
        = ([], Some (preconditionError (updateRowDbAtom a) a)) \<and>
      updateFieldAtom u lo settles a path fieldName v deleteField ignoreRequiredFields
          disableCheckEquality
        = ([], Some (preconditionError (updateRowDbAtom a) a))) \<and>
   (\<not> deleteRowDbAtom b \<longrightarrow>
      deleteRowAtom settles b paths = ([], Some (Error ''Cannot write to database''))) \<and>
   (deleteRowDbAtom b' \<longrightarrow>
      thrown (deleteRowAtom settles b' paths)
        = firstRejection (map settles (filter is_db (calls (deleteRowAtom settles b' paths))))) \<and>
   deleteRowAtom settles (b'\<lparr>tableSettingsAtom := settings, currentUserAtom := usr\<rparr>) paths
     = deleteRowAtom settles b' paths \<and>
   (\<not> bulkWriteDbAtom c \<or> tableSettingsAtom c = None \<or> currentUserAtom c = None \<longrightarrow>
      bulkAddRowsAtom u settles c rows collection onBatchCommit
        = ([], Some (preconditionError (bulkWriteDbAtom c) c))) \<and>
   (updateRowDbAtom d \<and> tableSettingsAtom d \<noteq> None \<and> currentUserAtom d \<noteq> None \<and>
    path \<notin> (\<lambda>r. ref_path (rowy_ref r)) ` set (tableRowsAtom d) \<longrightarrow>
      updateFieldAtom u lo settles d path fieldName v deleteField ignoreRequiredFields
          disableCheckEquality
        = ([], Some (Error ''Could not find row'')))"
proof (intro conjI impI)
  assume pre: "\<not> updateRowDbAtom a \<or> tableSettingsAtom a = None \<or> currentUserAtom a = None"
  then show "addRowAtom u settles a row ignoreRequiredFields setId
        = ([], Some (preconditionError (updateRowDbAtom a) a))"
    by (cases "updateRowDbAtom a"; cases "tableSettingsAtom a"; cases "currentUserAtom a";
        simp add: addRowAtom_def preconditionError_def)
  from pre show "updateFieldAtom u lo settles a path fieldName v deleteField
          ignoreRequiredFields disableCheckEquality
        = ([], Some (preconditionError (updateRowDbAtom a) a))"
    by (cases "updateRowDbAtom a"; cases "tableSettingsAtom a"; cases "currentUserAtom a";
        simp add: updateFieldAtom_def preconditionError_def)
next
  assume "\<not> deleteRowDbAtom b"
  then show "deleteRowAtom settles b paths = ([], Some (Error ''Cannot write to database''))"
    by (simp add: deleteRowAtom_def)
next
  assume d: "deleteRowDbAtom b'"
  show "thrown (deleteRowAtom settles b' paths)
        = firstRejection (map settles (filter is_db (calls (deleteRowAtom settles b' paths))))"
    unfolding deleteRowAtom_run[OF d]
    by (rule rejection_two_phases) (rule delete_single_db(2), rule delete_single_rejection)
next
  show "deleteRowAtom settles (b'\<lparr>tableSettingsAtom := settings, currentUserAtom := usr\<rparr>) paths
     = deleteRowAtom settles b' paths"
    by (simp add: deleteRowAtom_def)
next
  assume "\<not> bulkWriteDbAtom c \<or> tableSettingsAtom c = None \<or> currentUserAtom c = None"
  then show "bulkAddRowsAtom u settles c rows collection onBatchCommit
        = ([], Some (preconditionError (bulkWriteDbAtom c) c))"
    by (cases "bulkWriteDbAtom c"; cases "tableSettingsAtom c"; cases "currentUserAtom c";
        simp add: bulkAddRowsAtom_def preconditionError_def)
next
  assume pre: "updateRowDbAtom d \<and> tableSettingsAtom d \<noteq> None \<and> currentUserAtom d \<noteq> None \<and>
    path \<notin> (\<lambda>r. ref_path (rowy_ref r)) ` set (tableRowsAtom d)"
  then have "findRow (tableRowsAtom d) path = None"
    by (auto simp: findRow_def find_None_iff)
  with pre show "updateFieldAtom u lo settles d path fieldName v deleteField
          ignoreRequiredFields disableCheckEquality
        = ([], Some (Error ''Could not find row''))"
    by (auto simp: updateFieldAtom_def)
qed

theorem mutation_precondition_errors_witness:
  "tableSettingsAtom (ex_atoms\<lparr>tableSettingsAtom := None\<rparr>) = None \<and>
   addRowAtom ex_utils ex_offline (ex_atoms\<lparr>tableSettingsAtom := None\<rparr>) (Row ex_named_row)
       None None
     = ([], Some (Error ''Cannot read table settings'')) \<and>
   updateFieldAtom ex_utils ex_lodash ex_offline (ex_atoms\<lparr>tableSettingsAtom := None\<rparr>)
       ''t/r9'' ''name'' JNull None None None
     = ([], Some (Error ''Cannot read table settings'')) \<and>
   \<not> deleteRowDbAtom (ex_atoms\<lparr>deleteRowDbAtom := False\<rparr>) \<and>
   deleteRowAtom ex_offline (ex_atoms\<lparr>deleteRowDbAtom := False\<rparr>) (Path ''t/r1'')
     = ([], Some (Error ''Cannot write to database'')) \<and>
   deleteRowDbAtom ex_atoms \<and>
   thrown (deleteRowAtom ex_offline ex_atoms (Path ''t/r1'')) = None \<and>
   deleteRowAtom ex_offline (ex_atoms\<lparr>tableSettingsAtom := None, currentUserAtom := None\<rparr>)
       (Path ''t/r1'')
     = deleteRowAtom ex_offline ex_atoms (Path ''t/r1'') \<and>
   currentUserAtom (ex_atoms\<lparr>currentUserAtom := None\<rparr>) = None \<and>
   bulkAddRowsAtom ex_utils ex_offline (ex_atoms\<lparr>currentUserAtom := None\<rparr>) [Map.empty] ''t''
       None
     = ([], Some (Error ''Cannot read current user'')) \<and>
   updateRowDbAtom ex_atoms \<and> tableSettingsAtom ex_atoms \<noteq> None \<and>
   currentUserAtom ex_atoms \<noteq> None \<and>
   ''t/r9'' \<notin> (\<lambda>r. ref_path (rowy_ref r)) ` set (tableRowsAtom ex_atoms) \<and>
   updateFieldAtom ex_utils ex_lodash ex_offline ex_atoms ''t/r9'' ''name'' JNull None None None
     = ([], Some (Error ''Could not find row''))"
proof -
  have h: "tableSettingsAtom (ex_atoms\<lparr>tableSettingsAtom := None\<rparr>) = None"
    "\<not> deleteRowDbAtom (ex_atoms\<lparr>deleteRowDbAtom := False\<rparr>)"
    "deleteRowDbAtom ex_atoms"
    "currentUserAtom (ex_atoms\<lparr>currentUserAtom := None\<rparr>) = None"
    "updateRowDbAtom ex_atoms" "tableSettingsAtom ex_atoms \<noteq> None"
    "currentUserAtom ex_atoms \<noteq> None"
    "''t/r9'' \<notin> (\<lambda>r. ref_path (rowy_ref r)) ` set (tableRowsAtom ex_atoms)"
    by (simp_all add: ex_atoms_def ex_local_row_def ex_db_row_def)
  have e: "preconditionError (updateRowDbAtom (ex_atoms\<lparr>tableSettingsAtom := None\<rparr>))
             (ex_atoms\<lparr>tableSettingsAtom := None\<rparr>) = Error ''Cannot read table settings''"
    "preconditionError (bulkWriteDbAtom (ex_atoms\<lparr>currentUserAtom := None\<rparr>))
             (ex_atoms\<lparr>currentUserAtom := None\<rparr>) = Error ''Cannot read current user''"
    by (simp_all add: preconditionError_def ex_atoms_def)
  have local: "filter is_db (calls (deleteRowAtom ex_offline ex_atoms (Path ''t/r1''))) = []"
    by (simp add: deleteRowAtom_def deleteSingleRowAndAudit_def isLocalRow_def findRow_def
        ex_atoms_def ex_local_row_def Let_def awaited_def calls_def is_db_def)
  note inst = mutation_precondition_errors
      [where a = "ex_atoms\<lparr>tableSettingsAtom := None\<rparr>" and u = ex_utils and lo = ex_lodash
        and settles = ex_offline and row = "Row ex_named_row" and ignoreRequiredFields = None
        and setId = None and path = "''t/r9''" and fieldName = "''name''" and v = JNull
        and deleteField = None and disableCheckEquality = None
        and b = "ex_atoms\<lparr>deleteRowDbAtom := False\<rparr>" and paths = "Path ''t/r1''"
        and b' = ex_atoms and settings = None and usr = None
        and c = "ex_atoms\<lparr>currentUserAtom := None\<rparr>" and rows = "[Map.empty]"
        and collection = "''t''" and onBatchCommit = None and d = ex_atoms]
  from inst[THEN conjunct1] h(1)
  have 1: "addRowAtom ex_utils ex_offline (ex_atoms\<lparr>tableSettingsAtom := None\<rparr>)
       (Row ex_named_row) None None
     = ([], Some (Error ''Cannot read table settings''))"
    "updateFieldAtom ex_utils ex_lodash ex_offline (ex_atoms\<lparr>tableSettingsAtom := None\<rparr>)
       ''t/r9'' ''name'' JNull None None None
     = ([], Some (Error ''Cannot read table settings''))"
    unfolding e by blast+
  from inst[THEN conjunct2, THEN conjunct1] h(2)
  have 2: "deleteRowAtom ex_offline (ex_atoms\<lparr>deleteRowDbAtom := False\<rparr>) (Path ''t/r1'')
     = ([], Some (Error ''Cannot write to database''))"
    by blast
  from inst[THEN conjunct2, THEN conjunct2, THEN conjunct1] h(3)
  have 3: "thrown (deleteRowAtom ex_offline ex_atoms (Path ''t/r1'')) = None"
    unfolding local by simp
  note 4 = inst[THEN conjunct2, THEN conjunct2, THEN conjunct2, THEN conjunct1]
  from inst[THEN conjunct2, THEN conjunct2, THEN conjunct2, THEN conjunct2, THEN conjunct1] h(4)
  have 5: "bulkAddRowsAtom ex_utils ex_offline (ex_atoms\<lparr>currentUserAtom := None\<rparr>) [Map.empty]
       ''t'' None
     = ([], Some (Error ''Cannot read current user''))"
    unfolding e by blast
  from inst[THEN conjunct2, THEN conjunct2, THEN conjunct2, THEN conjunct2, THEN conjunct2]
    h(5-8)
  have 6: "updateFieldAtom ex_utils ex_lodash ex_offline ex_atoms ''t/r9'' ''name'' JNull
       None None None
     = ([], Some (Error ''Could not find row''))"
    by blast
  from h 1 2 3 4 5 6 show ?thesis by blast
qed

text \<open>
  C9 as stated fails for \<^verbatim>\<open>deleteRowAtom\<close>: with the table settings and the current user
  both unset it throws nothing, and it deletes a local row, deletes a database row and
  records both in the audit log.
\<close>

theorem mutation_precondition_errors_counterexample:
  "tableSettingsAtom (ex_atoms\<lparr>tableSettingsAtom := None, currentUserAtom := None\<rparr>) = None \<and>
   currentUserAtom (ex_atoms\<lparr>tableSettingsAtom := None, currentUserAtom := None\<rparr>) = None \<and>
   deleteRowAtom ex_online (ex_atoms\<lparr>tableSettingsAtom := None, currentUserAtom := None\<rparr>)
       (Paths [''t/r1'', ''t/r5''])
     = ([SetRowsLocal (LocalDelete ''t/r1''), AuditChange DELETE_ROW ''t/r1'' None,
         DeleteRowDb ''t/r5'', AuditChange DELETE_ROW ''t/r5'' None], None)"
  by (simp add: deleteRowAtom_def deleteSingleRowAndAudit_def isLocalRow_def findRow_def
      ex_atoms_def ex_local_row_def ex_db_row_def Let_def fanOut_def ex_online_def)

section \<open>The precedence of filters\<close>

text \<open>
  C10. The filters applied to the table follow a fixed precedence: for a user with the
  ADMIN role whose user filters are a non-empty list or are null, the user filters (the
  empty list when null); otherwise the table filters when they are a non-empty list;
  otherwise the user filters when they are a non-empty list; otherwise none. Whenever
  filters are applied, that is whenever the table actions are available, the call that
  applies them is followed by the call that resets the ordering.
\<close>

theorem filters_precedence:
  "(isAdmin userClaims \<and> userFilters = FNull \<longrightarrow>
      filtersToApply userClaims tableFilters userFilters = []) \<and>
   (isAdmin userClaims \<and> userFilters = FArray us \<and> us \<noteq> [] \<longrightarrow>
      filtersToApply userClaims tableFilters userFilters = us) \<and>
   (\<not> (isAdmin userClaims \<and> (userFilters = FNull \<or> hasFilters userFilters)) \<and>
    tableFilters = FArray ts \<and> ts \<noteq> [] \<longrightarrow>
      filtersToApply userClaims tableFilters userFilters = ts) \<and>
   (\<not> (isAdmin userClaims \<and> (userFilters = FNull \<or> hasFilters userFilters)) \<and>
    \<not> hasFilters tableFilters \<and> userFilters = FArray us \<and> us \<noteq> [] \<longrightarrow>
      filtersToApply userClaims tableFilters userFilters = us) \<and>
   (\<not> (isAdmin userClaims \<and> (userFilters = FNull \<or> hasFilters userFilters)) \<and>
    \<not> hasFilters tableFilters \<and> \<not> hasFilters userFilters \<longrightarrow>
      filtersToApply userClaims tableFilters userFilters = []) \<and>
   (\<exists>queries. applyFilters initialQuery True userClaims tableFilters userFilters =
       queries @ [TableFilter (filtersToApply userClaims tableFilters userFilters), TableOrderBy]
       \<and> (\<forall>c \<in> set queries. \<forall>fs. c \<noteq> TableFilter fs)) \<and>
   (\<forall>c \<in> set (applyFilters initialQuery False userClaims tableFilters userFilters).
      c \<noteq> TableOrderBy \<and> (\<forall>fs. c \<noteq> TableFilter fs))"
proof (intro conjI impI)
  assume "isAdmin userClaims \<and> userFilters = FNull"
  then show "filtersToApply userClaims tableFilters userFilters = []"
    by (simp add: filtersToApply_def filtersOf_def)
next
  assume "isAdmin userClaims \<and> userFilters = FArray us \<and> us \<noteq> []"
  then show "filtersToApply userClaims tableFilters userFilters = us"
    by (simp add: filtersToApply_def hasFilters_def filtersOf_def)
next
  assume "\<not> (isAdmin userClaims \<and> (userFilters = FNull \<or> hasFilters userFilters)) \<and>
    tableFilters = FArray ts \<and> ts \<noteq> []"
  then show "filtersToApply userClaims tableFilters userFilters = ts"
    by (auto simp: filtersToApply_def hasFilters_def filtersOf_def)
next
  assume "\<not> (isAdmin userClaims \<and> (userFilters = FNull \<or> hasFilters userFilters)) \<and>
    \<not> hasFilters tableFilters \<and> userFilters = FArray us \<and> us \<noteq> []"
  then show "filtersToApply userClaims tableFilters userFilters = us"
    by (auto simp: filtersToApply_def hasFilters_def filtersOf_def)
next
  assume "\<not> (isAdmin userClaims \<and> (userFilters = FNull \<or> hasFilters userFilters)) \<and>
    \<not> hasFilters tableFilters \<and> \<not> hasFilters userFilters"
  then show "filtersToApply userClaims tableFilters userFilters = []"
    by (auto simp: filtersToApply_def)
next
  show "\<exists>queries. applyFilters initialQuery True userClaims tableFilters userFilters =
       queries @ [TableFilter (filtersToApply userClaims tableFilters userFilters), TableOrderBy]
       \<and> (\<forall>c \<in> set queries. \<forall>fs. c \<noteq> TableFilter fs)"
    by (rule exI[of _ "[TableSetQuery (firstQuery initialQuery tableFilters),
                        UserSetQuery (firstQuery initialQuery userFilters)]"])
       (simp add: applyFilters_def)
next
  show "\<forall>c \<in> set (applyFilters initialQuery False userClaims tableFilters userFilters).
      c \<noteq> TableOrderBy \<and> (\<forall>fs. c \<noteq> TableFilter fs)"
    by (simp add: applyFilters_def)
qed

theorem filters_precedence_witness:
  "isAdmin (Some [''ADMIN'']) \<and>
   filtersToApply (Some [''ADMIN'']) (FArray [ex_filter_gt]) FNull = [] \<and>
   \<not> isAdmin (Some [''EDITOR'']) \<and>
   filtersToApply (Some [''EDITOR'']) (FArray [ex_filter_gt]) FNull = [ex_filter_gt] \<and>
   filtersToApply (Some [''EDITOR'']) FUndefined (FArray [ex_filter_eq]) = [ex_filter_eq] \<and>
   filtersToApply (Some [''ADMIN'']) (FArray [ex_filter_gt]) (FArray [ex_filter_eq])
     = [ex_filter_eq] \<and>
   filtersToApply None FUndefined FNull = []"
proof -
  have admin: "isAdmin (Some [''ADMIN''])" and editor: "\<not> isAdmin (Some [''EDITOR''])"
    and nobody: "\<not> isAdmin None"
    by (simp_all add: isAdmin_def)
  have 1: "filtersToApply (Some [''ADMIN'']) (FArray [ex_filter_gt]) FNull = []"
    using filters_precedence
      [where userClaims = "Some [''ADMIN'']" and userFilters = FNull
         and tableFilters = "FArray [ex_filter_gt]"] admin
    by blast
  have 2: "filtersToApply (Some [''EDITOR'']) (FArray [ex_filter_gt]) FNull = [ex_filter_gt]"
    using filters_precedence
      [where userClaims = "Some [''EDITOR'']" and userFilters = FNull
         and tableFilters = "FArray [ex_filter_gt]" and ts = "[ex_filter_gt]"] editor
    by simp
  have 3: "filtersToApply (Some [''EDITOR'']) FUndefined (FArray [ex_filter_eq]) = [ex_filter_eq]"
    using filters_precedence
      [where userClaims = "Some [''EDITOR'']" and userFilters = "FArray [ex_filter_eq]"
         and tableFilters = FUndefined and us = "[ex_filter_eq]"] editor
    by (simp add: hasFilters_def)
  have 4: "filtersToApply (Some [''ADMIN'']) (FArray [ex_filter_gt]) (FArray [ex_filter_eq])
     = [ex_filter_eq]"
    using filters_precedence
      [where userClaims = "Some [''ADMIN'']" and userFilters = "FArray [ex_filter_eq]"
         and tableFilters = "FArray [ex_filter_gt]" and us = "[ex_filter_eq]"] admin
    by simp
  have 5: "filtersToApply None FUndefined FNull = []"
    using filters_precedence
      [where userClaims = None and userFilters = FNull and tableFilters = FUndefined] nobody
    by (simp add: hasFilters_def)
  from admin editor 1 2 3 4 5 show ?thesis by simp
qed

end
